theory Spec2Isabelle
  imports Complex_Main "HOL-Library.Sublist"
begin

section \<open>FanPyControl: a shallow embedding of fanpycontrol.py\<close>

text \<open>
  Conventions of the embedding.
  \<^item> Python's unbounded \<open>int\<close> is \<^typ>\<open>int\<close>.
  \<^item> Python's \<open>float\<close> is idealised as \<^typ>\<open>real\<close>: the true division in
    \<open>get_temperature_percentage\<close>, \<open>lerp\<close>, \<open>statistics.mean\<close> and the argument of
    \<open>round\<close> are computed exactly. Binary rounding, infinities and NaN are outside the model,
    so where a fraction has no exact binary form the code can return a neighbour of the value
    computed here: with temperatures 20 to 60, PWM 0 to 100 and 43 degrees the fraction 23/40
    gives the tie 57.5 and 58 here, and 57.49999999999999 and 57 in floats.
  \<^item> A method that mutates \<open>self\<close> returns the updated object; a method that can raise
    returns \<open>(error + value, object)\<close>, so that the mutations done before the raise stay visible.
  \<^item> A \<open>TextIO\<close> handle is a record of the file's name, its content, the stream position and
    the log of the calls made on the handle. Calls never fail. A write takes effect at once,
    where a text stream holds the text back until the next seek on it. On the mode file each
    write is followed by the seek of the same method, so the content recorded here is the
    file's whenever no \<open>set_mode\<close> or \<open>shutdown\<close> call stands between its write and its seek; on
    the PWM file, where the seek comes before the write, the file is one poll behind the
    content recorded here. The log of calls and the stream position are not affected.
\<close>

subsection \<open>Errors\<close>

datatype error =
    ValueError
  | KeyError
  | ZeroDivisionError
  | StatisticsError
  | FileNotFoundError

subsection \<open>Numeric helpers\<close>

text \<open>
  Modelled from the spec: \<open>clamp\<close> and \<open>lerp\<close> are imported from the external module
  \<open>imath\<close>, which is not part of the repository. The spec describes them as "clamp into
  [min, max]" and "linearly interpolate between min and max by fraction"; the argument order
  is the one of the call in \<open>clamped_linear_interpolation\<close>.
\<close>

definition clamp :: "int \<Rightarrow> int \<Rightarrow> int \<Rightarrow> int" where
  "clamp x lo hi = (if x < lo then lo else if hi < x then hi else x)"

definition lerp :: "int \<Rightarrow> int \<Rightarrow> real \<Rightarrow> real" where
  "lerp a b t = real_of_int a + (real_of_int b - real_of_int a) * t"

text \<open>
  Python's built-in \<open>round\<close> with one argument: the nearest integer, a tie going to the
  even neighbour.
\<close>

definition py_round :: "real \<Rightarrow> int" where
  "py_round x =
     (let f = \<lfloor>x\<rfloor>; d = x - real_of_int f
      in if d < 1 / 2 then f
         else if 1 / 2 < d then f + 1
         else if even f then f else f + 1)"

definition clamped_linear_interpolation :: "int \<Rightarrow> int \<Rightarrow> real \<Rightarrow> int" where
  "clamped_linear_interpolation minimum maximum percentage =
     clamp (py_round (lerp minimum maximum percentage)) minimum maximum"

definition pwm_clamp :: "int \<Rightarrow> int" where
  "pwm_clamp pwm_value = clamp pwm_value 0 255"

subsection \<open>Integers as text\<close>

text \<open>Python's \<open>str\<close> on an \<open>int\<close>: decimal digits, a leading minus sign for a negative number.\<close>

definition digit_char :: "nat \<Rightarrow> char" where
  "digit_char d = ''0123456789'' ! d"

fun dec_nat :: "nat \<Rightarrow> string" where
  "dec_nat n = (if n < 10 then [digit_char n] else dec_nat (n div 10) @ [digit_char (n mod 10)])"

declare dec_nat.simps [simp del]

definition py_str :: "int \<Rightarrow> string" where
  "py_str n = (if n < 0 then CHR ''-'' # dec_nat (nat (- n)) else dec_nat (nat n))"

text \<open>
  Python's \<open>int\<close> on a \<open>str\<close>, base 10, for ASCII text: surrounding whitespace (space, tab,
  line feed, vertical tab, form feed, carriage return) is stripped, one sign is allowed, then
  digits, where a single underscore may stand between two digits. Anything else raises
  \<open>ValueError\<close>. The interpreter's limit on the number of digits converted (4300 by default)
  is outside the model.
\<close>

definition is_space :: "char \<Rightarrow> bool" where
  "is_space c \<longleftrightarrow>
     c \<in> set [CHR '' '', CHR 0x09, CHR 0x0A, CHR 0x0B, CHR 0x0C, CHR 0x0D]"

definition strip :: "string \<Rightarrow> string" where
  "strip s = rev (dropWhile is_space (rev (dropWhile is_space s)))"

definition digit_val :: "char \<Rightarrow> nat option" where
  "digit_val c =
     (let k = (of_char c :: nat)
      in if 48 \<le> k \<and> k \<le> 57 then Some (k - 48) else None)"

fun parse_digits :: "nat \<Rightarrow> string \<Rightarrow> nat option" where
  "parse_digits acc [] = Some acc"
| "parse_digits acc [c] =
     (case digit_val c of Some d \<Rightarrow> Some (acc * 10 + d) | None \<Rightarrow> None)"
| "parse_digits acc (c # c' # cs) =
     (case digit_val c of
        Some d \<Rightarrow> parse_digits (acc * 10 + d) (c' # cs)
      | None \<Rightarrow>
          if c = CHR ''_''
          then (case digit_val c' of
                  Some d \<Rightarrow> parse_digits (acc * 10 + d) cs
                | None \<Rightarrow> None)
          else None)"

definition parse_unsigned :: "string \<Rightarrow> nat option" where
  "parse_unsigned s =
     (case s of
        [] \<Rightarrow> None
      | c # cs \<Rightarrow> (case digit_val c of Some d \<Rightarrow> parse_digits d cs | None \<Rightarrow> None))"

definition py_int :: "string \<Rightarrow> error + int" where
  "py_int s =
     (let t = strip s;
          (negative, body) =
            (case t of
               [] \<Rightarrow> (False, t)
             | c # cs \<Rightarrow>
                 if c = CHR ''-'' then (True, cs)
                 else if c = CHR ''+'' then (False, cs)
                 else (False, t))
      in case parse_unsigned body of
           None \<Rightarrow> Inl ValueError
         | Some n \<Rightarrow> Inr (if negative then - int n else int n))"

subsection \<open>Text streams\<close>

datatype io_call = Seek nat | Write string | Readline

record TextIO =
  name :: string
  content :: string
  pos :: nat
  calls :: "io_call list"

text \<open>
  \<open>open(path, "r+")\<close> on a file system given as a map from paths to contents: the file must
  exist, and the stream starts at offset 0.
\<close>

definition open_read_write :: "(string \<rightharpoonup> string) \<Rightarrow> string \<Rightarrow> error + TextIO" where
  "open_read_write fs path =
     (case fs path of
        None \<Rightarrow> Inl FileNotFoundError
      | Some c \<Rightarrow> Inr \<lparr>name = path, content = c, pos = 0, calls = []\<rparr>)"

definition seek :: "nat \<Rightarrow> TextIO \<Rightarrow> TextIO" where
  "seek offset f = f\<lparr>pos := offset, calls := calls f @ [Seek offset]\<rparr>"

text \<open>
  \<open>TextIO.write\<close> (\<open>write\<close> is a reserved word of Isabelle) overwrites in place from the
  stream position and extends the file where the text runs past its end; a position past the end is first filled with NUL characters.
\<close>

definition write_text :: "string \<Rightarrow> TextIO \<Rightarrow> TextIO" where
  "write_text s f =
     (let p = pos f;
          c = content f @ replicate (p - length (content f)) (CHR 0x00)
      in f\<lparr>content := take p c @ s @ drop (p + length s) c,
            pos := p + length s,
            calls := calls f @ [Write s]\<rparr>)"

text \<open>
  \<open>readline\<close> on a stream opened in text mode (universal newlines): the text from the stream
  position up to the next line end, which is a line feed, a carriage return, or a carriage
  return followed by a line feed, and is returned as one line feed; at the end of the file,
  what is left. \<open>take_line\<close> gives the line and the number of characters it takes from the file.
\<close>

fun take_line :: "string \<Rightarrow> string \<times> nat" where
  "take_line [] = ([], 0)"
| "take_line (c # cs) =
     (if c = CHR 0x0A then ([CHR 0x0A], 1)
      else if c = CHR 0x0D
        then ([CHR 0x0A], case cs of [] \<Rightarrow> 1 | c' # _ \<Rightarrow> if c' = CHR 0x0A then 2 else 1)
      else (let (line, n) = take_line cs in (c # line, Suc n)))"

definition readline :: "TextIO \<Rightarrow> string \<times> TextIO" where
  "readline f =
     (let (line, n) = take_line (drop (pos f) (content f))
      in (line, f\<lparr>pos := pos f + n, calls := calls f @ [Readline]\<rparr>))"

subsection \<open>PWMMode and PWMConfiguration\<close>

datatype PWMMode = MANUAL | AUTO

fun PWMMode_value :: "PWMMode \<Rightarrow> int" where
  "PWMMode_value MANUAL = 1"
| "PWMMode_value AUTO = 5"

text \<open>
  \<open>str(mode)\<close> on a member of an \<open>IntEnum\<close> is the decimal text of its value
  (Python 3.11 and later, where \<open>IntEnum.__str__\<close> is \<open>int.__str__\<close>).
\<close>

definition PWMMode_str :: "PWMMode \<Rightarrow> string" where
  "PWMMode_str mode = py_str (PWMMode_value mode)"

record PWMConfiguration =
  minimum :: int
  maximum :: int
  fan_stop :: int
  fan_start :: int

text \<open>\<open>data[key]\<close> on a dict: a missing key raises \<open>KeyError\<close>.\<close>

definition getitem :: "('k \<rightharpoonup> 'v) \<Rightarrow> 'k \<Rightarrow> error + 'v" where
  "getitem data key = (case data key of None \<Rightarrow> Inl KeyError | Some v \<Rightarrow> Inr v)"

definition PWMConfiguration_from_json :: "(string \<rightharpoonup> int) \<Rightarrow> error + PWMConfiguration" where
  "PWMConfiguration_from_json data =
     (case getitem data ''minimum'' of Inl e \<Rightarrow> Inl e | Inr a \<Rightarrow>
      case getitem data ''maximum'' of Inl e \<Rightarrow> Inl e | Inr b \<Rightarrow>
      case getitem data ''fan_stop'' of Inl e \<Rightarrow> Inl e | Inr c \<Rightarrow>
      case getitem data ''fan_start'' of Inl e \<Rightarrow> Inl e | Inr d \<Rightarrow>
        Inr \<lparr>PWMConfiguration.minimum = pwm_clamp a, PWMConfiguration.maximum = pwm_clamp b,
             fan_stop = pwm_clamp c, fan_start = pwm_clamp d\<rparr>)"

subsection \<open>TemperatureConfiguration\<close>

text \<open>
  \<open>collections.deque\<close> with a \<open>maxlen\<close>: \<open>append\<close> adds on the right and, when the deque
  is then longer than \<open>maxlen\<close>, drops one item on the left.
\<close>

record deque =
  maxlen :: nat
  items :: "int list"

definition deque_init :: "int \<Rightarrow> error + deque" where
  "deque_init n = (if n < 0 then Inl ValueError else Inr \<lparr>maxlen = nat n, items = []\<rparr>)"

definition deque_append :: "deque \<Rightarrow> int \<Rightarrow> deque" where
  "deque_append d x =
     (let xs = items d @ [x]
      in d\<lparr>items := (if maxlen d < length xs then tl xs else xs)\<rparr>)"

text \<open>\<open>statistics.mean\<close>: the exact mean; no data raises \<open>StatisticsError\<close>.\<close>

definition mean :: "int list \<Rightarrow> error + real" where
  "mean xs =
     (if xs = [] then Inl StatisticsError
      else Inr (real_of_int (sum_list xs) / real (length xs)))"

record TemperatureConfiguration =
  input :: TextIO
  minimum :: int
  maximum :: int
  previous_temperatures :: deque

text \<open>The dataclass constructor followed by \<open>__post_init__(average)\<close>.\<close>

definition TemperatureConfiguration_init ::
    "TextIO \<Rightarrow> int \<Rightarrow> int \<Rightarrow> int \<Rightarrow> error + TemperatureConfiguration" where
  "TemperatureConfiguration_init inp lo hi average =
     (case deque_init average of
        Inl e \<Rightarrow> Inl e
      | Inr d \<Rightarrow> Inr \<lparr>input = inp, minimum = lo, maximum = hi, previous_temperatures = d\<rparr>)"

text \<open>
  \<open>int(n / 1000)\<close>: the quotient truncated towards zero. The code takes the quotient as a
  float first; the two agree for readings below \<open>2 ^ 53\<close> in absolute value, and from about
  \<open>1.7e16\<close>, far beyond what a sensor shows in millidegrees, the float can be the next integer.
\<close>

definition int_truediv :: "int \<Rightarrow> int \<Rightarrow> int" where
  "int_truediv n k = sgn n * sgn k * (\<bar>n\<bar> div \<bar>k\<bar>)"

definition read_temperature ::
    "TemperatureConfiguration \<Rightarrow> (error + int) \<times> TemperatureConfiguration" where
  "read_temperature t =
     (let (line, f) = readline (seek 0 (input t));
          t' = t\<lparr>input := f\<rparr>
      in case py_int line of
           Inl e \<Rightarrow> (Inl e, t')
         | Inr n \<Rightarrow> (Inr (int_truediv n 1000), t'))"

definition get_temperature ::
    "TemperatureConfiguration \<Rightarrow> (error + int) \<times> TemperatureConfiguration" where
  "get_temperature t =
     (case read_temperature t of
        (Inl e, t') \<Rightarrow> (Inl e, t')
      | (Inr v, t') \<Rightarrow>
          (let t'' = t'\<lparr>previous_temperatures := deque_append (previous_temperatures t') v\<rparr>
           in case mean (items (previous_temperatures t'')) of
                Inl e \<Rightarrow> (Inl e, t'')
              | Inr m \<Rightarrow> (Inr (py_round m), t'')))"

definition delta :: "TemperatureConfiguration \<Rightarrow> int" where
  "delta t = maximum t - minimum t"

text \<open>
  The temperature device shows a new reading between two polls: the content of the open
  file changes, the handle and its position do not.
\<close>

definition sensor_shows :: "string \<Rightarrow> TemperatureConfiguration \<Rightarrow> TemperatureConfiguration" where
  "sensor_shows raw t = t\<lparr>input := (input t)\<lparr>content := raw\<rparr>\<rparr>"

text \<open>
  A sequence of calls of \<open>get_temperature\<close>, the device showing the next raw text before each
  call; the values returned so far are collected and the sequence stops at the first raise.
\<close>

fun get_temperatures ::
    "string list \<Rightarrow> TemperatureConfiguration \<Rightarrow> (error + int list) \<times> TemperatureConfiguration" where
  "get_temperatures [] t = (Inr [], t)"
| "get_temperatures (raw # raws) t =
     (case get_temperature (sensor_shows raw t) of
        (Inl e, t') \<Rightarrow> (Inl e, t')
      | (Inr v, t') \<Rightarrow>
          (case get_temperatures raws t' of
             (Inl e, t'') \<Rightarrow> (Inl e, t'')
           | (Inr vs, t'') \<Rightarrow> (Inr (v # vs), t'')))"

text \<open>
  The spec's words for what the sampler reports, kept apart from the source's: the last \<open>n\<close>
  readings (all of them while there are fewer), and their arithmetic mean rounded to the
  nearest integer.
\<close>

definition last_readings :: "nat \<Rightarrow> int list \<Rightarrow> int list" where
  "last_readings n rs = drop (length rs - n) rs"

definition rounded_mean :: "int list \<Rightarrow> int" where
  "rounded_mean rs = py_round (real_of_int (sum_list rs) / real (length rs))"

subsection \<open>FanConfiguration\<close>

record FanConfiguration =
  pwm_file :: TextIO
  fan_input :: "TextIO option"
  temperature :: TemperatureConfiguration
  pwm :: PWMConfiguration
  mode_file :: TextIO
  is_running :: bool
  original_mode :: int

text \<open>
  The dataclass constructor followed by \<open>__post_init__\<close>: the mode file is opened beside
  the PWM file, its first line is read as the original mode, and the stream is left at offset 0.
  A raise leaves no object behind.
\<close>

definition FanConfiguration_init ::
    "(string \<rightharpoonup> string) \<Rightarrow> TextIO \<Rightarrow> TextIO option \<Rightarrow> TemperatureConfiguration \<Rightarrow>
     PWMConfiguration \<Rightarrow> error + FanConfiguration" where
  "FanConfiguration_init fs pwmf fan_in temp pwmc =
     (case open_read_write fs (name pwmf @ ''_enable'') of
        Inl e \<Rightarrow> Inl e
      | Inr m \<Rightarrow>
          (let (line, m') = readline (seek 0 m)
           in case py_int line of
                Inl e \<Rightarrow> Inl e
              | Inr mode \<Rightarrow>
                  Inr \<lparr>pwm_file = pwmf, fan_input = fan_in, temperature = temp, pwm = pwmc,
                       mode_file = seek 0 m', is_running = True, original_mode = mode\<rparr>))"

definition set_mode :: "PWMMode \<Rightarrow> FanConfiguration \<Rightarrow> FanConfiguration" where
  "set_mode mode fan = fan\<lparr>mode_file := seek 0 (write_text (PWMMode_str mode) (mode_file fan))\<rparr>"

definition write_pwm :: "int \<Rightarrow> FanConfiguration \<Rightarrow> FanConfiguration" where
  "write_pwm v fan = fan\<lparr>pwm_file := write_text (py_str v) (seek 0 (pwm_file fan))\<rparr>"

definition get_temperature_percentage ::
    "FanConfiguration \<Rightarrow> (error + real) \<times> FanConfiguration" where
  "get_temperature_percentage fan =
     (case get_temperature (temperature fan) of
        (Inl e, t') \<Rightarrow> (Inl e, fan\<lparr>temperature := t'\<rparr>)
      | (Inr v, t') \<Rightarrow>
          if delta t' = 0 then (Inl ZeroDivisionError, fan\<lparr>temperature := t'\<rparr>)
          else (Inr (real_of_int (v - minimum t') / real_of_int (delta t')),
                fan\<lparr>temperature := t'\<rparr>))"

definition get_current_pwm :: "FanConfiguration \<Rightarrow> (error + int) \<times> FanConfiguration" where
  "get_current_pwm fan =
     (case get_temperature_percentage fan of
        (Inl e, fan') \<Rightarrow> (Inl e, fan')
      | (Inr percentage, fan') \<Rightarrow>
          (Inr (clamped_linear_interpolation (PWMConfiguration.minimum (pwm fan'))
                  (PWMConfiguration.maximum (pwm fan')) percentage), fan'))"

definition shutdown :: "FanConfiguration \<Rightarrow> FanConfiguration" where
  "shutdown fan =
     fan\<lparr>mode_file := seek 0 (write_text (py_str (original_mode fan)) (mode_file fan)),
         is_running := False\<rparr>"

text \<open>
  The spec's wording of \<open>shutdown\<close>, kept apart from the source's: the cursor is moved to the
  start first, then the original mode is written, then the flag is cleared.
\<close>

definition shutdown_as_specified :: "FanConfiguration \<Rightarrow> FanConfiguration" where
  "shutdown_as_specified fan =
     fan\<lparr>mode_file := write_text (py_str (original_mode fan)) (seek 0 (mode_file fan)),
         is_running := False\<rparr>"

subsection \<open>The control loop and the signal handler, step by step\<close>

text \<open>
  \<open>run\<close> goes on for as long as \<open>is_running\<close> holds, in a thread of its own, and \<open>shutdown\<close> is
  called from the signal handler, which the interpreter runs in the main thread whenever a
  signal has arrived, also while an earlier call of the handler is still under way. Both are
  therefore transition systems, and a step of one can fall between any two steps of the other.

  The points of \<open>run\<close>:
  \<^item> \<open>Entry\<close>: before \<open>self.mode_file.write(str(mode))\<close> in \<open>set_mode(PWMMode.MANUAL)\<close>;
  \<^item> \<open>ModeWritten\<close>: in \<open>set_mode\<close>, after the write and before \<open>self.mode_file.seek(0)\<close>;
  \<^item> \<open>Check\<close>: before the test of \<open>while self.is_running\<close>;
  \<^item> \<open>Body\<close>: the test has passed, before \<open>self.write_pwm(self.get_current_pwm())\<close>;
  \<^item> \<open>Sleeping\<close>: in \<open>sleep(interval)\<close>;
  \<^item> \<open>Returned\<close>: the loop has ended; \<open>Raised e\<close>: an exception has ended the thread.

  The step from \<open>Body\<close> is one step: it reads and writes the sampler and the PWM file only,
  which nothing but this thread touches, and neither the running flag nor the mode file, which
  are all that \<open>shutdown\<close> touches; a sensor update during the step acts as one before or
  after it.
\<close>

datatype run_pc = Entry | ModeWritten | Check | Body | Sleeping | Returned | Raised error

fun run_step :: "run_pc \<times> FanConfiguration \<Rightarrow> run_pc \<times> FanConfiguration" where
  "run_step (Entry, fan) =
     (ModeWritten, fan\<lparr>mode_file := write_text (PWMMode_str MANUAL) (mode_file fan)\<rparr>)"
| "run_step (ModeWritten, fan) = (Check, fan\<lparr>mode_file := seek 0 (mode_file fan)\<rparr>)"
| "run_step (Check, fan) = (if is_running fan then Body else Returned, fan)"
| "run_step (Body, fan) =
     (case get_current_pwm fan of
        (Inl e, fan') \<Rightarrow> (Raised e, fan')
      | (Inr v, fan') \<Rightarrow> (Sleeping, write_pwm v fan'))"
| "run_step (Sleeping, fan) = (Check, fan)"
| "run_step (Returned, fan) = (Returned, fan)"
| "run_step (Raised e, fan) = (Raised e, fan)"

text \<open>
  The points of one call of \<open>shutdown\<close> by the handler: before the write of the original
  mode, before the seek, before the assignment to \<open>is_running\<close>. The calls under way form a
  stack: a signal that arrives pushes a new call, and only the newest call takes steps.
\<close>

datatype shutdown_pc = AtWrite | AtSeek | AtFlag

fun shutdown_step :: "shutdown_pc list \<times> FanConfiguration \<Rightarrow> shutdown_pc list \<times> FanConfiguration" where
  "shutdown_step ([], fan) = ([], fan)"
| "shutdown_step (AtWrite # hs, fan) =
     (AtSeek # hs, fan\<lparr>mode_file := write_text (py_str (original_mode fan)) (mode_file fan)\<rparr>)"
| "shutdown_step (AtSeek # hs, fan) = (AtFlag # hs, fan\<lparr>mode_file := seek 0 (mode_file fan)\<rparr>)"
| "shutdown_step (AtFlag # hs, fan) = (hs, fan\<lparr>is_running := False\<rparr>)"

text \<open>
  What can happen to one fan: its own thread takes a step of \<open>run\<close>, the temperature device
  shows a new reading, a signal arrives, or the handler takes a step of \<open>shutdown\<close>. A state is
  the point of \<open>run\<close>, the stack of \<open>shutdown\<close> calls under way, and the fan.
\<close>

datatype event = Thread | Sensor string | Signal | Handler

type_synonym state = "run_pc \<times> shutdown_pc list \<times> FanConfiguration"

definition loop_pc :: "state \<Rightarrow> run_pc" where
  "loop_pc s = fst s"

definition handlers :: "state \<Rightarrow> shutdown_pc list" where
  "handlers s = fst (snd s)"

definition fan_of :: "state \<Rightarrow> FanConfiguration" where
  "fan_of s = snd (snd s)"

fun occur :: "event \<Rightarrow> state \<Rightarrow> state" where
  "occur Thread (pc, hs, fan) = (case run_step (pc, fan) of (pc', fan') \<Rightarrow> (pc', hs, fan'))"
| "occur (Sensor raw) (pc, hs, fan) =
     (pc, hs, fan\<lparr>temperature := sensor_shows raw (temperature fan)\<rparr>)"
| "occur Signal (pc, hs, fan) = (pc, AtWrite # hs, fan)"
| "occur Handler (pc, hs, fan) = (case shutdown_step (hs, fan) of (hs', fan') \<Rightarrow> (pc, hs', fan'))"

fun execute :: "event list \<Rightarrow> state \<Rightarrow> state" where
  "execute [] s = s"
| "execute (e # es) s = execute es (occur e s)"

text \<open>
  A state is settled when no call of \<open>set_mode\<close> or \<open>shutdown\<close> stands between its write and
  its seek. An event starts a write on the mode file when it is the first step of \<open>set_mode\<close>
  or of a \<open>shutdown\<close> call. A schedule is serial when each such write starts in a settled
  state: the calls of \<open>set_mode\<close> and \<open>shutdown\<close> do not overlap between write and seek.
\<close>

definition settled :: "state \<Rightarrow> bool" where
  "settled s \<longleftrightarrow> loop_pc s \<noteq> ModeWritten \<and> AtSeek \<notin> set (handlers s)"

definition starts_write :: "event \<Rightarrow> state \<Rightarrow> bool" where
  "starts_write e s \<longleftrightarrow>
     (e = Thread \<and> loop_pc s = Entry)
     \<or> (e = Handler \<and> (case handlers s of AtWrite # _ \<Rightarrow> True | _ \<Rightarrow> False))"

fun serial :: "event list \<Rightarrow> state \<Rightarrow> bool" where
  "serial [] s = True"
| "serial (e # es) s = ((starts_write e s \<longrightarrow> settled s) \<and> serial es (occur e s))"

text \<open>The number of writes made on the PWM file so far, and whether \<open>run\<close> is over.\<close>

definition pwm_writes :: "FanConfiguration \<Rightarrow> nat" where
  "pwm_writes fan =
     length (filter (\<lambda>c. case c of Write _ \<Rightarrow> True | _ \<Rightarrow> False) (calls (pwm_file fan)))"

definition exited :: "run_pc \<Rightarrow> bool" where
  "exited pc = (case pc of Returned \<Rightarrow> True | Raised _ \<Rightarrow> True | _ \<Rightarrow> False)"

text \<open>
  Once \<open>is_running\<close> is \<open>False\<close>, the number of steps of its thread that \<open>run\<close> still takes
  from each point: the rest of what is under way, then the test that ends the loop.
\<close>

fun steps_to_exit :: "run_pc \<Rightarrow> nat" where
  "steps_to_exit Entry = 3"
| "steps_to_exit ModeWritten = 2"
| "steps_to_exit Check = 1"
| "steps_to_exit Body = 3"
| "steps_to_exit Sleeping = 2"
| "steps_to_exit Returned = 0"
| "steps_to_exit (Raised e) = 0"

subsection \<open>Configuration and the signal handler\<close>




subsection \<open>A concrete fan\<close>

text \<open>
  One fan on a small file system, used to run the definitions: the mode file holds \<open>5\<close>, the
  sensor shows 50 degrees, the temperature range is 20 to 80 and the PWM range 50 to 255.
\<close>

definition example_fs :: "string \<rightharpoonup> string" where
  "example_fs = [''/sys/pwm1_enable'' \<mapsto> ''5\<newline>'']"

definition example_pwm_file :: TextIO where
  "example_pwm_file = \<lparr>name = ''/sys/pwm1'', content = [], pos = 0, calls = []\<rparr>"

definition example_temperature :: TemperatureConfiguration where
  "example_temperature =
     \<lparr>input = \<lparr>name = ''/sys/temp1_input'', content = ''50000\<newline>'', pos = 0, calls = []\<rparr>,
      minimum = 20, maximum = 80, previous_temperatures = \<lparr>maxlen = 3, items = []\<rparr>\<rparr>"

definition example_data :: "string \<rightharpoonup> int" where
  "example_data =
     [''minimum'' \<mapsto> 50, ''maximum'' \<mapsto> 255, ''fan_stop'' \<mapsto> 0, ''fan_start'' \<mapsto> 300]"

definition example_pwm :: PWMConfiguration where
  "example_pwm =
     \<lparr>PWMConfiguration.minimum = 50, PWMConfiguration.maximum = 255, fan_stop = 0, fan_start = 255\<rparr>"

definition example_fan :: FanConfiguration where
  "example_fan =
     \<lparr>pwm_file = example_pwm_file, fan_input = None, temperature = example_temperature,
      pwm = example_pwm,
      mode_file = \<lparr>name = ''/sys/pwm1_enable'', content = ''5\<newline>'', pos = 0,
                   calls = [Seek 0, Readline, Seek 0]\<rparr>,
      is_running = True, original_mode = 5\<rparr>"

section \<open>Properties\<close>

subsection \<open>Rounding\<close>

lemma py_round_of_int: "py_round (real_of_int n) = n"
  by (simp add: py_round_def)

lemma py_round_lower: "real_of_int (py_round x) \<ge> x - 1 / 2"
  unfolding py_round_def Let_def by (auto; linarith)

lemma py_round_upper: "real_of_int (py_round x) \<le> x + 1 / 2"
  unfolding py_round_def Let_def by (auto; linarith)

lemma py_round_le_int:
  assumes "x \<le> real_of_int n"
  shows "py_round x \<le> n"
proof -
  have "\<lfloor>x\<rfloor> \<le> n" using assms by (simp add: floor_le_iff)
  show ?thesis
  proof (cases "\<lfloor>x\<rfloor> = n")
    case True
    with assms have "x - real_of_int \<lfloor>x\<rfloor> \<le> 0" by simp
    then show ?thesis using True by (simp add: py_round_def Let_def)
  next
    case False
    with \<open>\<lfloor>x\<rfloor> \<le> n\<close> have "\<lfloor>x\<rfloor> + 1 \<le> n" by simp
    then show ?thesis by (simp add: py_round_def Let_def)
  qed
qed

lemma py_round_ge_int:
  assumes "real_of_int n \<le> x"
  shows "n \<le> py_round x"
proof -
  have "n \<le> \<lfloor>x\<rfloor>" using assms by (simp add: le_floor_iff)
  then show ?thesis by (simp add: py_round_def Let_def)
qed

subsection \<open>Numeric helpers\<close>

lemma lerp_le_left: "a \<le> b \<Longrightarrow> t \<le> 0 \<Longrightarrow> lerp a b t \<le> real_of_int a"
  by (simp add: lerp_def mult_nonneg_nonpos)

lemma lerp_ge_right:
  assumes "a \<le> b" and "1 \<le> t"
  shows "real_of_int b \<le> lerp a b t"
proof -
  have "(real_of_int b - real_of_int a) * 1 \<le> (real_of_int b - real_of_int a) * t"
    using assms by (intro mult_left_mono) simp_all
  then show ?thesis by (simp add: lerp_def)
qed

lemma clamp_in_range: "lo \<le> hi \<Longrightarrow> lo \<le> clamp x lo hi \<and> clamp x lo hi \<le> hi"
  by (simp add: clamp_def)

text \<open>
  C3. For integers \<open>lo \<le> hi\<close> and every real fraction: a fraction in \<open>[0, 1]\<close> gives a result
  in \<open>[lo, hi]\<close>, a negative fraction gives \<open>lo\<close>, and a fraction above 1 gives \<open>hi\<close>: the
  interpolation saturates and never extrapolates.
\<close>

theorem C3_clamped_linear_interpolation_saturates:
  assumes "lo \<le> hi"
  shows "(0 \<le> fraction \<and> fraction \<le> 1 \<longrightarrow>
            lo \<le> clamped_linear_interpolation lo hi fraction \<and>
            clamped_linear_interpolation lo hi fraction \<le> hi)
       \<and> (fraction < 0 \<longrightarrow> clamped_linear_interpolation lo hi fraction = lo)
       \<and> (1 < fraction \<longrightarrow> clamped_linear_interpolation lo hi fraction = hi)"
proof (intro conjI impI)
  show "lo \<le> clamped_linear_interpolation lo hi fraction"
    using assms by (simp add: clamped_linear_interpolation_def clamp_in_range)
  show "clamped_linear_interpolation lo hi fraction \<le> hi"
    using assms by (simp add: clamped_linear_interpolation_def clamp_in_range)
next
  assume "fraction < 0"
  then have "py_round (lerp lo hi fraction) \<le> lo"
    using assms by (intro py_round_le_int lerp_le_left) simp_all
  then show "clamped_linear_interpolation lo hi fraction = lo"
    using assms by (simp add: clamped_linear_interpolation_def clamp_def)
next
  assume "1 < fraction"
  then have "hi \<le> py_round (lerp lo hi fraction)"
    using assms by (intro py_round_ge_int lerp_ge_right) simp_all
  then show "clamped_linear_interpolation lo hi fraction = hi"
    using assms by (auto simp add: clamped_linear_interpolation_def clamp_def)
qed

theorem C3_witness:
  "(50::int) \<le> 255
   \<and> ((0::real) \<le> 1 / 2 \<and> (1 / 2 :: real) \<le> 1)
   \<and> 50 \<le> clamped_linear_interpolation 50 255 (1 / 2)
   \<and> clamped_linear_interpolation 50 255 (1 / 2) \<le> 255
   \<and> (- 1 :: real) < 0 \<and> clamped_linear_interpolation 50 255 (- 1) = 50
   \<and> (1 :: real) < 2 \<and> clamped_linear_interpolation 50 255 2 = 255"
proof -
  have h: "(50::int) \<le> 255" by simp
  show ?thesis
    using C3_clamped_linear_interpolation_saturates [OF h, of "1 / 2"]
      C3_clamped_linear_interpolation_saturates [OF h, of "- 1"]
      C3_clamped_linear_interpolation_saturates [OF h, of 2]
    by simp
qed

subsection \<open>Text streams\<close>

lemma seek_fields [simp]:
  "pos (seek n f) = n" "content (seek n f) = content f"
  "calls (seek n f) = calls f @ [Seek n]" "name (seek n f) = name f"
  by (simp_all add: seek_def)

lemma write_text_fields [simp]:
  "pos (write_text s f) = pos f + length s"
  "calls (write_text s f) = calls f @ [Write s]" "name (write_text s f) = name f"
  by (simp_all add: write_text_def Let_def)

lemma write_text_at_start:
  "pos f = 0 \<Longrightarrow> content (write_text s f) = s @ drop (length s) (content f)"
  by (simp add: write_text_def Let_def)

lemma readline_fields [simp]:
  "content (snd (readline f)) = content f"
  "calls (snd (readline f)) = calls f @ [Readline]" "name (snd (readline f)) = name f"
  by (simp_all add: readline_def Let_def split: prod.splits)

subsection \<open>Concrete values\<close>

lemma py_str_1: "py_str 1 = ''1''" by (simp add: py_str_def dec_nat.simps digit_char_def)
lemma py_str_5: "py_str 5 = ''5''" by (simp add: py_str_def dec_nat.simps digit_char_def)
lemma py_str_152: "py_str 152 = ''152''" by (simp add: py_str_def dec_nat.simps digit_char_def)
lemma PWMMode_str_MANUAL: "PWMMode_str MANUAL = ''1''" by (simp add: PWMMode_str_def py_str_1)
lemma py_int_5: "py_int ''5\<newline>'' = Inr 5"
  by (simp add: py_int_def strip_def is_space_def parse_unsigned_def digit_val_def)
lemma py_int_50000: "py_int ''50000\<newline>'' = Inr 50000"
  by (simp add: py_int_def strip_def is_space_def parse_unsigned_def digit_val_def)

lemma example_pwm_from_json: "PWMConfiguration_from_json example_data = Inr example_pwm"
  by (simp add: PWMConfiguration_from_json_def example_data_def example_pwm_def getitem_def
      pwm_clamp_def clamp_def)

lemma example_fan_init:
  "FanConfiguration_init example_fs example_pwm_file None example_temperature example_pwm
     = Inr example_fan"
  by (simp add: FanConfiguration_init_def example_fs_def example_pwm_file_def open_read_write_def
      readline_def seek_def Let_def py_int_5 example_fan_def)

subsection \<open>Fan operations, field by field\<close>

lemma set_mode_fields [simp]:
  "pwm_file (set_mode m fan) = pwm_file fan" "fan_input (set_mode m fan) = fan_input fan"
  "temperature (set_mode m fan) = temperature fan" "pwm (set_mode m fan) = pwm fan"
  "is_running (set_mode m fan) = is_running fan" "original_mode (set_mode m fan) = original_mode fan"
  "mode_file (set_mode m fan) = seek 0 (write_text (PWMMode_str m) (mode_file fan))"
  by (simp_all add: set_mode_def)

lemma write_pwm_fields [simp]:
  "mode_file (write_pwm v fan) = mode_file fan" "fan_input (write_pwm v fan) = fan_input fan"
  "temperature (write_pwm v fan) = temperature fan" "pwm (write_pwm v fan) = pwm fan"
  "is_running (write_pwm v fan) = is_running fan" "original_mode (write_pwm v fan) = original_mode fan"
  "pwm_file (write_pwm v fan) = write_text (py_str v) (seek 0 (pwm_file fan))"
  by (simp_all add: write_pwm_def)

lemma shutdown_fields [simp]:
  "pwm_file (shutdown fan) = pwm_file fan" "fan_input (shutdown fan) = fan_input fan"
  "temperature (shutdown fan) = temperature fan" "pwm (shutdown fan) = pwm fan"
  "is_running (shutdown fan) = False" "original_mode (shutdown fan) = original_mode fan"
  "mode_file (shutdown fan) = seek 0 (write_text (py_str (original_mode fan)) (mode_file fan))"
  by (simp_all add: shutdown_def)

lemma get_temperature_percentage_state:
  "snd (get_temperature_percentage fan) = fan\<lparr>temperature := snd (get_temperature (temperature fan))\<rparr>"
  by (simp add: get_temperature_percentage_def split: prod.splits sum.splits)

lemma get_current_pwm_state:
  "snd (get_current_pwm fan) = fan\<lparr>temperature := snd (get_temperature (temperature fan))\<rparr>"
  using get_temperature_percentage_state [of fan]
  by (auto simp add: get_current_pwm_def split: prod.splits sum.splits)

lemma get_current_pwm_fields [simp]:
  "pwm_file (snd (get_current_pwm fan)) = pwm_file fan"
  "fan_input (snd (get_current_pwm fan)) = fan_input fan"
  "pwm (snd (get_current_pwm fan)) = pwm fan"
  "mode_file (snd (get_current_pwm fan)) = mode_file fan"
  "is_running (snd (get_current_pwm fan)) = is_running fan"
  "original_mode (snd (get_current_pwm fan)) = original_mode fan"
  by (simp_all add: get_current_pwm_state)

lemma state_parts [simp]:
  "loop_pc (pc, hs, fan) = pc" "handlers (pc, hs, fan) = hs" "fan_of (pc, hs, fan) = fan"
  by (simp_all add: loop_pc_def handlers_def fan_of_def)

lemma run_step_flag [simp]: "is_running (snd (run_step (pc, fan))) = is_running fan"
proof (cases pc)
  case Body
  obtain r fan' where g: "get_current_pwm fan = (r, fan')" by (cases "get_current_pwm fan")
  then have "is_running fan' = is_running fan"
    using get_current_pwm_fields(5) [of fan] by simp
  with Body g show ?thesis by (cases r) simp_all
qed simp_all

lemma run_step_original_mode [simp]: "original_mode (snd (run_step (pc, fan))) = original_mode fan"
proof (cases pc)
  case Body
  obtain r fan' where g: "get_current_pwm fan = (r, fan')" by (cases "get_current_pwm fan")
  then have "original_mode fan' = original_mode fan"
    using get_current_pwm_fields(6) [of fan] by simp
  with Body g show ?thesis by (cases r) simp_all
qed simp_all

lemma run_step_mode_file:
  "mode_file (snd (run_step (pc, fan))) =
     (if pc = Entry then write_text (PWMMode_str MANUAL) (mode_file fan)
      else if pc = ModeWritten then seek 0 (mode_file fan)
      else mode_file fan)"
proof (cases pc)
  case Body
  obtain r fan' where g: "get_current_pwm fan = (r, fan')" by (cases "get_current_pwm fan")
  then have "mode_file fan' = mode_file fan"
    using get_current_pwm_fields(4) [of fan] by simp
  with Body g show ?thesis by (cases r) simp_all
qed simp_all

lemma run_step_pc:
  "fst (run_step (pc, fan)) \<noteq> Entry"
  "fst (run_step (pc, fan)) = ModeWritten \<longleftrightarrow> pc = Entry"
  by (cases pc; auto split: prod.splits sum.splits)+

text \<open>
  The steps and the methods: the two steps of \<open>run\<close> from \<open>Entry\<close> are \<open>set_mode(MANUAL)\<close>, and
  the three steps of one \<open>shutdown\<close> call, taken in a row, are \<open>shutdown\<close>.
\<close>

lemma set_mode_in_steps: "run_step (run_step (Entry, fan)) = (Check, set_mode MANUAL fan)"
  by (simp add: set_mode_def)

lemma shutdown_in_steps:
  "shutdown_step (shutdown_step (shutdown_step (AtWrite # hs, fan))) = (hs, shutdown fan)"
  by (simp add: shutdown_def)

lemma shutdown_step_fields [simp]:
  "original_mode (snd (shutdown_step (hs, fan))) = original_mode fan"
  "pwm_file (snd (shutdown_step (hs, fan))) = pwm_file fan"
  "temperature (snd (shutdown_step (hs, fan))) = temperature fan"
  "pwm (snd (shutdown_step (hs, fan))) = pwm fan"
  by (cases "(hs, fan)" rule: shutdown_step.cases; simp)+

lemma shutdown_step_flag: "\<not> is_running fan \<Longrightarrow> \<not> is_running (snd (shutdown_step (hs, fan)))"
  by (cases "(hs, fan)" rule: shutdown_step.cases) simp_all

lemma occur_original_mode: "original_mode (fan_of (occur e s)) = original_mode (fan_of s)"
proof -
  obtain pc hs fan where s: "s = (pc, hs, fan)" by (cases s)
  show ?thesis
  proof (cases e)
    case Thread
    obtain pc' fan' where r: "run_step (pc, fan) = (pc', fan')" by (cases "run_step (pc, fan)")
    then have "original_mode fan' = original_mode fan"
      using run_step_original_mode [of pc fan] by simp
    then show ?thesis using Thread r by (simp add: s)
  next
    case Handler
    obtain hs' fan' where r: "shutdown_step (hs, fan) = (hs', fan')"
      by (cases "shutdown_step (hs, fan)")
    then have "original_mode fan' = original_mode fan"
      using shutdown_step_fields(1) [of hs fan] by simp
    then show ?thesis using Handler r by (simp add: s)
  qed (simp_all add: s)
qed

lemma execute_original_mode: "original_mode (fan_of (execute es s)) = original_mode (fan_of s)"
  by (induction es arbitrary: s) (simp_all add: occur_original_mode)

subsection \<open>Shutdown\<close>

text \<open>
  C10. \<open>shutdown\<close> changes nothing but the mode file and the running flag: the PWM output
  file, the fan input, the temperature sampler with its history buffer, the PWM range and the
  stored original mode are what they were; of the mode file, the name stays.
\<close>

theorem C10_shutdown_frame:
  "shutdown fan = fan\<lparr>mode_file := mode_file (shutdown fan), is_running := False\<rparr>
   \<and> pwm_file (shutdown fan) = pwm_file fan
   \<and> content (pwm_file (shutdown fan)) = content (pwm_file fan)
   \<and> fan_input (shutdown fan) = fan_input fan
   \<and> temperature (shutdown fan) = temperature fan
   \<and> previous_temperatures (temperature (shutdown fan)) = previous_temperatures (temperature fan)
   \<and> pwm (shutdown fan) = pwm fan
   \<and> original_mode (shutdown fan) = original_mode fan
   \<and> name (mode_file (shutdown fan)) = name (mode_file fan)"
  by (simp add: shutdown_def)




lemma dec_nat_nonempty: "dec_nat n \<noteq> []"
  by (subst dec_nat.simps) simp

lemma py_str_nonempty: "py_str n \<noteq> []"
  by (simp add: py_str_def dec_nat_nonempty)

lemma FanConfiguration_init_fields:
  assumes "FanConfiguration_init fs pwmf fan_in temp pwmc = Inr fan"
  shows "pos (mode_file fan) = 0"
    and "fs (name pwmf @ ''_enable'') = Some (content (mode_file fan))"
    and "is_running fan"
    and "calls (mode_file fan) = [Seek 0, Readline, Seek 0]"
    and "py_int (fst (readline \<lparr>name = name pwmf @ ''_enable'', content = content (mode_file fan),
           pos = 0, calls = [Seek 0]\<rparr>)) = Inr (original_mode fan)"
  using assms
  by (auto simp add: FanConfiguration_init_def open_read_write_def seek_def readline_def Let_def
      split: option.splits sum.splits prod.splits)

subsection \<open>Reading back what \<open>str\<close> printed\<close>

lemma digit_char_in_digits: "d < 10 \<Longrightarrow> digit_char d \<in> set ''0123456789''"
proof -
  assume "d < 10"
  then have "d \<in> {0, 1, 2, 3, 4, 5, 6, 7, 8, 9}" by auto
  then show ?thesis by (auto simp add: digit_char_def)
qed

lemma digit_val_digit_char: "d < 10 \<Longrightarrow> digit_val (digit_char d) = Some d"
proof -
  assume "d < 10"
  then have "d \<in> {0, 1, 2, 3, 4, 5, 6, 7, 8, 9}" by auto
  then show ?thesis by (auto simp add: digit_val_def digit_char_def)
qed

lemma digit_plain:
  assumes "c \<in> set ''0123456789''"
  shows "\<not> is_space c" "c \<noteq> CHR 0x0A" "c \<noteq> CHR ''-''" "c \<noteq> CHR ''+''"
    "\<exists>d. digit_val c = Some d" "c \<noteq> CHR 0x0D"
  using assms by (auto simp add: is_space_def digit_val_def)

lemma dec_nat_digits: "set (dec_nat n) \<subseteq> set ''0123456789''"
proof (induction n rule: dec_nat.induct)
  case (1 n)
  show ?case
  proof (cases "n < 10")
    case True
    then show ?thesis
      using digit_char_in_digits [of n] by (subst dec_nat.simps) simp
  next
    case False
    have "digit_char (n mod 10) \<in> set ''0123456789''"
      by (rule digit_char_in_digits) simp
    with False 1 show ?thesis by (subst dec_nat.simps) simp
  qed
qed

lemma parse_digits_digit:
  "digit_val c = Some d \<Longrightarrow> parse_digits acc (c # cs) = parse_digits (acc * 10 + d) cs"
  by (cases cs) simp_all

lemma parse_digits_snoc:
  assumes "set ds \<subseteq> set ''0123456789''" and "d < 10"
  shows "\<exists>v. parse_digits acc ds = Some v
           \<and> parse_digits acc (ds @ [digit_char d]) = Some (v * 10 + d)"
  using assms(1)
proof (induction ds arbitrary: acc)
  case Nil
  show ?case using assms(2) by (simp add: digit_val_digit_char)
next
  case (Cons c ds)
  then have "c \<in> set ''0123456789''" by simp
  then obtain k where v: "digit_val c = Some k" using digit_plain(5) by blast
  have "set ds \<subseteq> set ''0123456789''" using Cons.prems by simp
  from Cons.IH [OF this, of "acc * 10 + k"] show ?case
    using parse_digits_digit [OF v, of acc] by simp
qed

lemma parse_digits_dec_nat: "parse_digits 0 (dec_nat n) = Some n"
proof (induction n rule: dec_nat.induct)
  case (1 n)
  show ?case
  proof (cases "n < 10")
    case True
    then show ?thesis by (subst dec_nat.simps) (simp add: digit_val_digit_char)
  next
    case False
    have m: "n mod 10 < 10" by simp
    obtain v where "parse_digits 0 (dec_nat (n div 10)) = Some v"
      "parse_digits 0 (dec_nat (n div 10) @ [digit_char (n mod 10)]) = Some (v * 10 + n mod 10)"
      using parse_digits_snoc [OF dec_nat_digits m, of 0 "n div 10"] by blast
    moreover have "parse_digits 0 (dec_nat (n div 10)) = Some (n div 10)"
      using 1 False by simp
    moreover have "n div 10 * 10 + n mod 10 = n"
      by (rule div_mult_mod_eq)
    ultimately have "parse_digits 0 (dec_nat (n div 10) @ [digit_char (n mod 10)]) = Some n"
      by simp
    with False show ?thesis by (subst dec_nat.simps) simp
  qed
qed

lemma parse_unsigned_dec_nat: "parse_unsigned (dec_nat n) = Some n"
proof -
  obtain c cs where d: "dec_nat n = c # cs"
    using dec_nat_nonempty [of n] by (cases "dec_nat n") auto
  then have "c \<in> set ''0123456789''"
    using dec_nat_digits [of n] by simp
  then obtain k where v: "digit_val c = Some k" using digit_plain(5) by blast
  have "parse_unsigned (dec_nat n) = parse_digits k cs"
    by (simp add: parse_unsigned_def d v)
  also have "\<dots> = parse_digits 0 (c # cs)"
    using parse_digits_digit [OF v, of 0 cs] by simp
  also have "\<dots> = Some n"
    using parse_digits_dec_nat [of n] by (simp add: d)
  finally show ?thesis .
qed

lemma py_str_chars: "c \<in> set (py_str n) \<Longrightarrow> c = CHR ''-'' \<or> c \<in> set ''0123456789''"
proof -
  assume c: "c \<in> set (py_str n)"
  show ?thesis
  proof (cases "n < 0")
    case True
    with c have "c = CHR ''-'' \<or> c \<in> set (dec_nat (nat (- n)))" by (simp add: py_str_def)
    then show ?thesis using dec_nat_digits [of "nat (- n)"] by blast
  next
    case False
    with c have "c \<in> set (dec_nat (nat n))" by (simp add: py_str_def)
    then show ?thesis using dec_nat_digits [of "nat n"] by blast
  qed
qed

lemma py_str_plain:
  "c \<in> set (py_str n) \<Longrightarrow> \<not> is_space c \<and> c \<noteq> CHR 0x0A \<and> c \<noteq> CHR 0x0D"
proof -
  assume "c \<in> set (py_str n)"
  then consider "c = CHR ''-''" | "c \<in> set ''0123456789''"
    using py_str_chars by blast
  then show ?thesis
  proof cases
    case 1
    then show ?thesis by (simp add: is_space_def)
  next
    case 2
    then show ?thesis using digit_plain(1,2,6) by blast
  qed
qed

lemma take_line_plain:
  assumes "\<forall>c \<in> set s. c \<noteq> CHR 0x0A \<and> c \<noteq> CHR 0x0D"
  shows "take_line (s @ rest) = (s @ fst (take_line rest), length s + snd (take_line rest))"
  using assms by (induction s) (simp_all add: case_prod_beta)

lemma strip_plain:
  assumes "\<forall>c \<in> set s. \<not> is_space c" and "s \<noteq> []"
  shows "strip s = s" "strip (s @ ''\<newline>'') = s"
proof -
  have h: "\<not> is_space (hd s)" "\<not> is_space (hd (rev s))"
    using assms by (simp_all add: hd_rev)
  have nl: "is_space (CHR 0x0A)" by (simp add: is_space_def)
  have d: "dropWhile is_space s = s" "dropWhile is_space (rev s) = rev s"
    using h assms(2) by (simp_all add: dropWhile_eq_self_iff)
  show "strip s = s" by (simp add: strip_def d)
  have "dropWhile is_space (s @ ''\<newline>'') = s @ ''\<newline>''"
    using h(1) assms(2) by (simp add: dropWhile_eq_self_iff)
  then show "strip (s @ ''\<newline>'') = s"
    by (simp add: strip_def nl d)
qed

lemma py_int_of_stripped:
  assumes "strip s = py_str n"
  shows "py_int s = Inr n"
proof (cases "n < 0")
  case True
  then have "py_str n = CHR ''-'' # dec_nat (nat (- n))" by (simp add: py_str_def)
  then show ?thesis
    using True by (simp add: py_int_def assms parse_unsigned_dec_nat)
next
  case False
  obtain c cs where d: "dec_nat (nat n) = c # cs"
    using dec_nat_nonempty [of "nat n"] by (cases "dec_nat (nat n)") auto
  then have "c \<in> set ''0123456789''"
    using dec_nat_digits [of "nat n"] by simp
  then have c: "c \<noteq> CHR ''-''" "c \<noteq> CHR ''+''"
    using digit_plain(3,4) by blast+
  have "parse_unsigned (c # cs) = Some (nat n)"
    using parse_unsigned_dec_nat [of "nat n"] by (simp add: d)
  then show ?thesis
    using False c by (simp add: py_int_def assms py_str_def d)
qed

lemma py_int_py_str: "py_int (py_str n) = Inr n" "py_int (py_str n @ ''\<newline>'') = Inr n"
proof -
  have "\<forall>c \<in> set (py_str n). \<not> is_space c" using py_str_plain by blast
  then have "strip (py_str n) = py_str n" "strip (py_str n @ ''\<newline>'') = py_str n"
    using py_str_nonempty by (simp_all add: strip_plain)
  then show "py_int (py_str n) = Inr n" "py_int (py_str n @ ''\<newline>'') = Inr n"
    by (simp_all add: py_int_of_stripped)
qed

lemma readline_py_str:
  assumes "content f = py_str n @ rest" and "rest = [] \<or> hd rest = CHR 0x0A" and "pos f = 0"
  shows "fst (readline f) = py_str n \<or> fst (readline f) = py_str n @ ''\<newline>''"
proof -
  have "\<forall>c \<in> set (py_str n). c \<noteq> CHR 0x0A \<and> c \<noteq> CHR 0x0D"
    using py_str_plain by blast
  then have t: "fst (take_line (py_str n @ rest)) = py_str n @ fst (take_line rest)"
    by (simp add: take_line_plain)
  have "fst (take_line rest) = [] \<or> fst (take_line rest) = ''\<newline>''"
    using assms(2) by (cases rest) auto
  then show ?thesis
    using assms(1,3) t by (auto simp add: readline_def Let_def case_prod_beta)
qed

lemma FanConfiguration_init_decimal:
  assumes "fs (name pwmf @ ''_enable'') = Some (py_str mode @ rest)"
    and "rest = [] \<or> hd rest = CHR 0x0A"
  shows "\<exists>fan0. FanConfiguration_init fs pwmf fan_in temp pwmc = Inr fan0
           \<and> original_mode fan0 = mode \<and> content (mode_file fan0) = py_str mode @ rest"
proof -
  let ?m = "\<lparr>name = name pwmf @ ''_enable'', content = py_str mode @ rest, pos = 0, calls = []\<rparr>"
  obtain line m' where r: "readline (seek 0 ?m) = (line, m')"
    by (cases "readline (seek 0 ?m)")
  have "fst (readline (seek 0 ?m)) = py_str mode
      \<or> fst (readline (seek 0 ?m)) = py_str mode @ ''\<newline>''"
    using assms(2) by (intro readline_py_str) simp_all
  then have "py_int line = Inr mode"
    using r py_int_py_str [of mode] by auto
  moreover have "content m' = py_str mode @ rest"
    using readline_fields(1) [of "seek 0 ?m"] r by simp
  ultimately show ?thesis
    using assms(1) r by (simp add: FanConfiguration_init_def open_read_write_def)
qed

subsection \<open>The cursor of the mode file\<close>

lemma occur_cursor:
  assumes "settled s \<longrightarrow> pos (mode_file (fan_of s)) = 0"
  shows "settled (occur e s) \<longrightarrow> pos (mode_file (fan_of (occur e s))) = 0"
proof -
  obtain pc hs fan where s: "s = (pc, hs, fan)" by (cases s)
  show ?thesis
  proof (cases e)
    case Thread
    obtain pc' fan' where r: "run_step (pc, fan) = (pc', fan')" by (cases "run_step (pc, fan)")
    have m: "mode_file fan' =
        (if pc = Entry then write_text (PWMMode_str MANUAL) (mode_file fan)
         else if pc = ModeWritten then seek 0 (mode_file fan) else mode_file fan)"
      using run_step_mode_file [of pc fan] r by simp
    have p: "pc' = ModeWritten \<longleftrightarrow> pc = Entry"
      using run_step_pc(2) [of pc fan] r by simp
    show ?thesis
      using assms Thread r m p by (auto simp add: s settled_def)
  next
    case (Sensor raw)
    then show ?thesis using assms by (simp add: s settled_def)
  next
    case Signal
    then show ?thesis using assms by (simp add: s settled_def)
  next
    case Handler
    then show ?thesis
      using assms by (cases "(hs, fan)" rule: shutdown_step.cases) (auto simp add: s settled_def)
  qed
qed

lemma execute_cursor:
  assumes "settled s \<longrightarrow> pos (mode_file (fan_of s)) = 0"
  shows "settled (execute es s) \<longrightarrow> pos (mode_file (fan_of (execute es s))) = 0"
  using assms by (induction es arbitrary: s) (simp_all add: occur_cursor)




subsection \<open>The text of the mode file\<close>

lemma prefix_overwrite: "prefix p c \<Longrightarrow> p @ drop (length p) c = c"
  by (auto simp add: prefix_def)

lemma overwrite_after_manual:
  assumes "p \<noteq> []" and "length m = 1"
  shows "drop (length p) (m @ drop (length m) c) = drop (length p) c"
proof -
  from assms(2) obtain x where m: "m = [x]" by (cases m) auto
  from assms(1) obtain y p' where p: "p = y # p'" by (cases p) auto
  show ?thesis by (cases c) (simp_all add: m p)
qed

lemma write_manual_content:
  assumes "pos f = 0" and "content f = c \<or> content f = ''1'' @ drop 1 c"
  shows "content (write_text ''1'' f) = ''1'' @ drop 1 c"
  using assms by (auto simp add: write_text_at_start)

lemma write_original_content:
  assumes "pos f = 0" and "content f = c \<or> content f = ''1'' @ drop 1 c"
    and "prefix (py_str n) c"
  shows "content (write_text (py_str n) f) = c"
proof -
  let ?p = "py_str n"
  have "content (write_text ?p f) = ?p @ drop (length ?p) (content f)"
    using assms(1) by (simp add: write_text_at_start)
  also have "drop (length ?p) (content f) = drop (length ?p) c"
    using assms(2) overwrite_after_manual [OF py_str_nonempty, of "''1''" n c] by auto
  also have "?p @ drop (length ?p) c = c"
    using assms(3) by (rule prefix_overwrite)
  finally show ?thesis .
qed

lemma shutdown_restores_content:
  assumes "pos (mode_file fan) = 0"
    and "content (mode_file fan) = c \<or> content (mode_file fan) = ''1'' @ drop 1 c"
    and "prefix (py_str (original_mode fan)) c"
  shows "content (mode_file (shutdown fan)) = c"
  using write_original_content [OF assms] by simp

lemma occur_serial_content:
  assumes "starts_write e s \<longrightarrow> settled s"
    and "settled s \<longrightarrow> pos (mode_file (fan_of s)) = 0"
    and "content (mode_file (fan_of s)) = c \<or> content (mode_file (fan_of s)) = ''1'' @ drop 1 c"
    and "prefix (py_str (original_mode (fan_of s))) c"
  shows "content (mode_file (fan_of (occur e s))) = c
       \<or> content (mode_file (fan_of (occur e s))) = ''1'' @ drop 1 c"
proof -
  obtain pc hs fan where s: "s = (pc, hs, fan)" by (cases s)
  show ?thesis
  proof (cases e)
    case Thread
    obtain pc' fan' where r: "run_step (pc, fan) = (pc', fan')" by (cases "run_step (pc, fan)")
    have m: "mode_file fan' =
        (if pc = Entry then write_text (PWMMode_str MANUAL) (mode_file fan)
         else if pc = ModeWritten then seek 0 (mode_file fan) else mode_file fan)"
      using run_step_mode_file [of pc fan] r by simp
    show ?thesis
    proof (cases "pc = Entry")
      case True
      then have "pos (mode_file fan) = 0"
        using assms(1,2) Thread by (simp add: s starts_write_def)
      then have "content (write_text ''1'' (mode_file fan)) = ''1'' @ drop 1 c"
        using assms(3) by (intro write_manual_content) (simp_all add: s)
      then show ?thesis
        using Thread r m True by (simp add: s PWMMode_str_MANUAL)
    next
      case False
      then show ?thesis
        using Thread r m assms(3) by (simp add: s)
    qed
  next
    case (Sensor raw)
    then show ?thesis using assms(3) by (simp add: s)
  next
    case Signal
    then show ?thesis using assms(3) by (simp add: s)
  next
    case Handler
    show ?thesis
    proof (cases "(hs, fan)" rule: shutdown_step.cases)
      case (2 hs' fan')
      then have "pos (mode_file fan) = 0"
        using assms(1,2) Handler by (simp add: s starts_write_def)
      then have "content (write_text (py_str (original_mode fan)) (mode_file fan)) = c"
        using assms(3,4) by (intro write_original_content) (simp_all add: s)
      then show ?thesis
        using Handler 2 by (simp add: s)
    qed (use Handler assms(3) in \<open>simp_all add: s\<close>)
  qed
qed

lemma execute_serial_content:
  assumes "serial es s"
    and "settled s \<longrightarrow> pos (mode_file (fan_of s)) = 0"
    and "content (mode_file (fan_of s)) = c \<or> content (mode_file (fan_of s)) = ''1'' @ drop 1 c"
    and "prefix (py_str (original_mode (fan_of s))) c"
  shows "content (mode_file (fan_of (execute es s))) = c
       \<or> content (mode_file (fan_of (execute es s))) = ''1'' @ drop 1 c"
  using assms
proof (induction es arbitrary: s)
  case Nil
  then show ?case by simp
next
  case (Cons e es)
  have 1: "serial es (occur e s)" and w: "starts_write e s \<longrightarrow> settled s"
    using Cons.prems(1) by simp_all
  have 2: "settled (occur e s) \<longrightarrow> pos (mode_file (fan_of (occur e s))) = 0"
    using Cons.prems(2) by (rule occur_cursor)
  have 3: "content (mode_file (fan_of (occur e s))) = c
      \<or> content (mode_file (fan_of (occur e s))) = ''1'' @ drop 1 c"
    using w Cons.prems(2,3,4) by (rule occur_serial_content)
  have 4: "prefix (py_str (original_mode (fan_of (occur e s)))) c"
    using Cons.prems(4) by (simp add: occur_original_mode)
  show ?case
    using Cons.IH [OF 1 2 3 4] by simp
qed

lemma py_int_05: "py_int ''05\<newline>'' = Inr 5"
  by (simp add: py_int_def strip_def is_space_def parse_unsigned_def digit_val_def)

text \<open>
  C2 as stated fails in three ways. The order it states, the cursor moved to the start
  before the write, is not the order of the source: on the fan built from a mode file holding
  \<open>5\<close>, \<open>shutdown\<close> adds the calls write, seek and leaves the cursor at 0, where the stated
  order gives seek, write and the cursor behind the text. The content is not restored for
  every mode file: built from a file holding \<open>05\<close>, the fan stores the mode 5 and \<open>shutdown\<close>
  leaves \<open>55\<close>. And it is not restored in every run: when the signal arrives while \<open>set_mode\<close>
  stands between its write and its seek, the file holds \<open>15\<close> after both calls have ended.
\<close>

theorem C2_shutdown_as_specified_counterexample:
  "FanConfiguration_init example_fs example_pwm_file None example_temperature example_pwm
     = Inr example_fan
   \<and> calls (mode_file (shutdown example_fan)) = [Seek 0, Readline, Seek 0, Write ''5'', Seek 0]
   \<and> calls (mode_file (shutdown_as_specified example_fan))
       = [Seek 0, Readline, Seek 0, Seek 0, Write ''5'']
   \<and> pos (mode_file (shutdown example_fan)) = 0
   \<and> pos (mode_file (shutdown_as_specified example_fan)) = 1
   \<and> shutdown example_fan \<noteq> shutdown_as_specified example_fan
   \<and> FanConfiguration_init [''/sys/pwm1_enable'' \<mapsto> ''05\<newline>''] example_pwm_file None
         example_temperature example_pwm
       = Inr (example_fan\<lparr>mode_file := (mode_file example_fan)\<lparr>content := ''05\<newline>''\<rparr>\<rparr>)
   \<and> content (mode_file (shutdown
         (example_fan\<lparr>mode_file := (mode_file example_fan)\<lparr>content := ''05\<newline>''\<rparr>\<rparr>)))
       = ''55\<newline>''
   \<and> execute [Thread, Signal, Handler, Handler, Handler, Thread] (Entry, [], example_fan)
       = (Check, [], fan_of (execute [Thread, Signal, Handler, Handler, Handler, Thread]
                              (Entry, [], example_fan)))
   \<and> \<not> is_running (fan_of (execute [Thread, Signal, Handler, Handler, Handler, Thread]
                              (Entry, [], example_fan)))
   \<and> content (mode_file (fan_of (execute [Thread, Signal, Handler, Handler, Handler, Thread]
                              (Entry, [], example_fan)))) = ''15''"
proof -
  have 1: "calls (mode_file (shutdown example_fan)) = [Seek 0, Readline, Seek 0, Write ''5'', Seek 0]"
    by (simp add: example_fan_def py_str_5)
  have 2: "calls (mode_file (shutdown_as_specified example_fan))
       = [Seek 0, Readline, Seek 0, Seek 0, Write ''5'']"
    by (simp add: shutdown_as_specified_def example_fan_def py_str_5)
  have 3: "pos (mode_file (shutdown_as_specified example_fan)) = 1"
    by (simp add: shutdown_as_specified_def example_fan_def py_str_5)
  have 4: "shutdown example_fan \<noteq> shutdown_as_specified example_fan"
  proof
    assume "shutdown example_fan = shutdown_as_specified example_fan"
    then have "pos (mode_file (shutdown example_fan))
        = pos (mode_file (shutdown_as_specified example_fan))"
      by (simp only:)
    with 3 show False by simp
  qed
  have 5: "FanConfiguration_init [''/sys/pwm1_enable'' \<mapsto> ''05\<newline>''] example_pwm_file None
         example_temperature example_pwm
       = Inr (example_fan\<lparr>mode_file := (mode_file example_fan)\<lparr>content := ''05\<newline>''\<rparr>\<rparr>)"
    by (simp add: FanConfiguration_init_def example_pwm_file_def open_read_write_def
        readline_def seek_def Let_def py_int_05 example_fan_def)
  have 6: "content (mode_file (shutdown
         (example_fan\<lparr>mode_file := (mode_file example_fan)\<lparr>content := ''05\<newline>''\<rparr>\<rparr>)))
       = ''55\<newline>''"
    by (simp add: example_fan_def write_text_def py_str_5)
  have 7: "execute [Thread, Signal, Handler, Handler, Handler, Thread] (Entry, [], example_fan)
       = (Check, [], fan_of (execute [Thread, Signal, Handler, Handler, Handler, Thread]
                              (Entry, [], example_fan)))"
    by simp
  have 8: "content (mode_file (fan_of (execute [Thread, Signal, Handler, Handler, Handler, Thread]
                              (Entry, [], example_fan)))) = ''15''"
    by (simp add: example_fan_def write_text_def PWMMode_str_MANUAL py_str_5)
  have 9: "\<not> is_running (fan_of (execute [Thread, Signal, Handler, Handler, Handler, Thread]
                              (Entry, [], example_fan)))"
    by simp
  show ?thesis
    using example_fan_init 1 2 3 4 5 6 7 8 9 by (simp only: simp_thms) simp
qed

text \<open>
  C2, as the code has it. Let the mode file hold the decimal text of an integer, alone or
  followed by a newline. Then construction succeeds and stores that integer as the original
  mode. \<open>shutdown\<close> writes the text of the original mode at the cursor, then moves the cursor
  to the start, then clears the running flag. In every state reached from construction by a
  run in which the calls of \<open>set_mode\<close> and \<open>shutdown\<close> have not overlapped between write and
  seek, and in which none of them stands between its write and its seek: the cursor of the
  mode file stands at the start, and after a \<open>shutdown\<close> that is not interrupted the content of
  the mode file is the content it had at construction.
\<close>

theorem C2_shutdown_restores_mode:
  assumes "fs (name pwmf @ ''_enable'') = Some (py_str mode @ rest)"
    and "rest = [] \<or> hd rest = CHR 0x0A"
  shows "\<exists>fan0. FanConfiguration_init fs pwmf fan_in temp pwmc = Inr fan0
       \<and> original_mode fan0 = mode
       \<and> mode_file (shutdown (fan_of (execute es (Entry, [], fan0)))) =
           seek 0 (write_text (py_str mode) (mode_file (fan_of (execute es (Entry, [], fan0)))))
       \<and> \<not> is_running (shutdown (fan_of (execute es (Entry, [], fan0))))
       \<and> (serial es (Entry, [], fan0) \<and> settled (execute es (Entry, [], fan0)) \<longrightarrow>
            pos (mode_file (fan_of (execute es (Entry, [], fan0)))) = 0
            \<and> content (mode_file (shutdown (fan_of (execute es (Entry, [], fan0)))))
                = py_str mode @ rest)"
proof -
  obtain fan0 where f: "FanConfiguration_init fs pwmf fan_in temp pwmc = Inr fan0"
    "original_mode fan0 = mode" "content (mode_file fan0) = py_str mode @ rest"
    using FanConfiguration_init_decimal
      [where fs = fs and pwmf = pwmf and mode = mode and rest = rest, OF assms]
    by blast
  let ?s = "execute es (Entry, [], fan0)"
  have p0: "pos (mode_file fan0) = 0"
    using f(1) by (rule FanConfiguration_init_fields(1))
  have om: "original_mode (fan_of ?s) = mode"
    by (simp add: execute_original_mode f(2))
  have cur: "settled ?s \<longrightarrow> pos (mode_file (fan_of ?s)) = 0"
    by (rule execute_cursor) (simp add: p0)
  have "content (mode_file (shutdown (fan_of ?s))) = py_str mode @ rest"
    if "serial es (Entry, [], fan0)" and "settled ?s"
  proof -
    have "content (mode_file (fan_of ?s)) = py_str mode @ rest
        \<or> content (mode_file (fan_of ?s)) = ''1'' @ drop 1 (py_str mode @ rest)"
      using that(1) by (rule execute_serial_content) (simp_all add: p0 f)
    moreover have "pos (mode_file (fan_of ?s)) = 0"
      using cur that(2) by simp
    ultimately show ?thesis
      by (intro shutdown_restores_content) (simp_all add: om)
  qed
  then show ?thesis
    using f(1,2) cur om by auto
qed

theorem C2_witness:
  "example_fs (name example_pwm_file @ ''_enable'') = Some (py_str 5 @ ''\<newline>'')
   \<and> (''\<newline>'' = [] \<or> hd ''\<newline>'' = CHR 0x0A)
   \<and> FanConfiguration_init example_fs example_pwm_file None example_temperature example_pwm
       = Inr example_fan
   \<and> serial [Thread, Thread, Signal, Thread] (Entry, [], example_fan)
   \<and> settled (execute [Thread, Thread, Signal, Thread] (Entry, [], example_fan))
   \<and> \<not> is_running (shutdown (fan_of (execute [Thread, Thread, Signal, Thread] (Entry, [], example_fan))))
   \<and> content (mode_file (fan_of (execute [Thread, Thread, Signal, Thread] (Entry, [], example_fan))))
       = ''1\<newline>''
   \<and> content (mode_file (shutdown (fan_of
         (execute [Thread, Thread, Signal, Thread] (Entry, [], example_fan))))) = ''5\<newline>''"
proof -
  let ?es = "[Thread, Thread, Signal, Thread]"
  have h1: "example_fs (name example_pwm_file @ ''_enable'') = Some (py_str 5 @ ''\<newline>'')"
    by (simp add: example_fs_def example_pwm_file_def py_str_5)
  have h2: "''\<newline>'' = [] \<or> hd ''\<newline>'' = CHR 0x0A" by simp
  have r: "is_running example_fan" by (simp add: example_fan_def)
  have h3: "serial ?es (Entry, [], example_fan)"
    using r by (simp add: starts_write_def settled_def)
  have h4: "settled (execute ?es (Entry, [], example_fan))"
    using r by (simp add: settled_def)
  have c: "content (mode_file (fan_of (execute ?es (Entry, [], example_fan)))) = ''1\<newline>''"
    using r by (simp add: example_fan_def write_text_def PWMMode_str_MANUAL)
  obtain fan0 where f:
    "FanConfiguration_init example_fs example_pwm_file None example_temperature example_pwm = Inr fan0"
    "\<not> is_running (shutdown (fan_of (execute ?es (Entry, [], fan0))))"
    "serial ?es (Entry, [], fan0) \<and> settled (execute ?es (Entry, [], fan0)) \<longrightarrow>
       content (mode_file (shutdown (fan_of (execute ?es (Entry, [], fan0))))) = py_str 5 @ ''\<newline>''"
    using C2_shutdown_restores_mode
      [where fs = example_fs and pwmf = example_pwm_file and mode = 5 and rest = "''\<newline>''"
        and fan_in = None and temp = example_temperature and pwmc = example_pwm
        and es = ?es, OF h1 h2]
    by blast
  have e: "fan0 = example_fan"
    using f(1) example_fan_init by simp
  have "content (mode_file (shutdown (fan_of (execute ?es (Entry, [], example_fan)))))
      = ''5\<newline>''"
    using f(3) h3 h4 unfolding e by (simp only: py_str_5) simp
  then show ?thesis
    using h1 h2 h3 h4 c f(2) example_fan_init unfolding e by (simp only: simp_thms)
qed

subsection \<open>The loop\<close>

lemma run_step_pwm_file:
  "pc \<noteq> Body \<Longrightarrow> pwm_file (snd (run_step (pc, fan))) = pwm_file fan"
  by (cases pc) simp_all

lemma occur_manual_once:
  assumes "e \<noteq> Signal" and "handlers s = []"
    and "(loop_pc s = Entry \<and> mode_file (fan_of s) = m \<and> pwm_file (fan_of s) = p)
       \<or> (loop_pc s = ModeWritten \<and> mode_file (fan_of s) = write_text ''1'' m
           \<and> pwm_file (fan_of s) = p)
       \<or> (loop_pc s \<noteq> Entry \<and> loop_pc s \<noteq> ModeWritten
           \<and> mode_file (fan_of s) = seek 0 (write_text ''1'' m))"
  shows "handlers (occur e s) = []
       \<and> ((loop_pc (occur e s) = Entry \<and> mode_file (fan_of (occur e s)) = m
            \<and> pwm_file (fan_of (occur e s)) = p)
          \<or> (loop_pc (occur e s) = ModeWritten
            \<and> mode_file (fan_of (occur e s)) = write_text ''1'' m
            \<and> pwm_file (fan_of (occur e s)) = p)
          \<or> (loop_pc (occur e s) \<noteq> Entry \<and> loop_pc (occur e s) \<noteq> ModeWritten
            \<and> mode_file (fan_of (occur e s)) = seek 0 (write_text ''1'' m)))"
proof -
  obtain pc hs fan where s: "s = (pc, hs, fan)" by (cases s)
  have hs: "hs = []" using assms(2) by (simp add: s)
  show ?thesis
  proof (cases e)
    case Thread
    obtain pc' fan' where r: "run_step (pc, fan) = (pc', fan')" by (cases "run_step (pc, fan)")
    have m: "mode_file fan' =
        (if pc = Entry then write_text (PWMMode_str MANUAL) (mode_file fan)
         else if pc = ModeWritten then seek 0 (mode_file fan) else mode_file fan)"
      using run_step_mode_file [of pc fan] r by simp
    have p: "pc' \<noteq> Entry" "pc' = ModeWritten \<longleftrightarrow> pc = Entry"
      using run_step_pc [of pc fan] r by simp_all
    have f: "pc \<noteq> Body \<Longrightarrow> pwm_file fan' = pwm_file fan"
      using run_step_pwm_file [of pc fan] r by simp
    show ?thesis
      using assms(3) Thread r m p f by (auto simp add: s hs PWMMode_str_MANUAL)
  next
    case (Sensor raw)
    then show ?thesis using assms(3) by (auto simp add: s hs)
  next
    case Signal
    with assms(1) show ?thesis by simp
  next
    case Handler
    then show ?thesis using assms(3) by (auto simp add: s hs)
  qed
qed

lemma execute_manual_once:
  assumes "Signal \<notin> set es" and "handlers s = []"
    and "(loop_pc s = Entry \<and> mode_file (fan_of s) = m \<and> pwm_file (fan_of s) = p)
       \<or> (loop_pc s = ModeWritten \<and> mode_file (fan_of s) = write_text ''1'' m
           \<and> pwm_file (fan_of s) = p)
       \<or> (loop_pc s \<noteq> Entry \<and> loop_pc s \<noteq> ModeWritten
           \<and> mode_file (fan_of s) = seek 0 (write_text ''1'' m))"
  shows "(loop_pc (execute es s) = Entry \<and> mode_file (fan_of (execute es s)) = m
            \<and> pwm_file (fan_of (execute es s)) = p)
          \<or> (loop_pc (execute es s) = ModeWritten
            \<and> mode_file (fan_of (execute es s)) = write_text ''1'' m
            \<and> pwm_file (fan_of (execute es s)) = p)
          \<or> (loop_pc (execute es s) \<noteq> Entry \<and> loop_pc (execute es s) \<noteq> ModeWritten
            \<and> mode_file (fan_of (execute es s)) = seek 0 (write_text ''1'' m))"
  using assms
proof (induction es arbitrary: s)
  case Nil
  then show ?case by simp
next
  case (Cons e es)
  have e: "e \<noteq> Signal" and es: "Signal \<notin> set es" using Cons.prems(1) by auto
  note step = occur_manual_once [OF e Cons.prems(2,3)]
  show ?case
    using Cons.IH [OF es step [THEN conjunct1] step [THEN conjunct2]] by simp
qed

text \<open>
  C7. In a run of the loop without signals, one of three holds. The thread has not yet taken
  its first step, and then neither the mode file nor the PWM file has been touched. Or it
  stands in \<open>set_mode\<close> between write and seek, and then the calls on the mode file since the
  start are one write of \<open>1\<close>, the text of \<open>PWMMode.MANUAL\<close>, and the PWM file has not been
  touched. Or it is past \<open>set_mode\<close>, and then the calls on the mode file since the start are
  exactly that write followed by the seek: the first step of \<open>run\<close> writes the mode and no
  later step writes it again.
\<close>

theorem C7_run_sets_manual_once:
  assumes "Signal \<notin> set es"
  shows "(loop_pc (execute es (Entry, [], fan)) = Entry
          \<and> mode_file (fan_of (execute es (Entry, [], fan))) = mode_file fan
          \<and> pwm_file (fan_of (execute es (Entry, [], fan))) = pwm_file fan)
       \<or> (loop_pc (execute es (Entry, [], fan)) = ModeWritten
          \<and> calls (mode_file (fan_of (execute es (Entry, [], fan))))
              = calls (mode_file fan) @ [Write ''1'']
          \<and> pwm_file (fan_of (execute es (Entry, [], fan))) = pwm_file fan)
       \<or> (loop_pc (execute es (Entry, [], fan)) \<noteq> Entry
          \<and> loop_pc (execute es (Entry, [], fan)) \<noteq> ModeWritten
          \<and> calls (mode_file (fan_of (execute es (Entry, [], fan))))
              = calls (mode_file fan) @ [Write ''1'', Seek 0])"
proof -
  let ?s = "execute es (Entry, [], fan)"
  have "(loop_pc ?s = Entry \<and> mode_file (fan_of ?s) = mode_file fan
            \<and> pwm_file (fan_of ?s) = pwm_file fan)
          \<or> (loop_pc ?s = ModeWritten
            \<and> mode_file (fan_of ?s) = write_text ''1'' (mode_file fan)
            \<and> pwm_file (fan_of ?s) = pwm_file fan)
          \<or> (loop_pc ?s \<noteq> Entry \<and> loop_pc ?s \<noteq> ModeWritten
            \<and> mode_file (fan_of ?s) = seek 0 (write_text ''1'' (mode_file fan)))"
    using assms by (rule execute_manual_once) simp_all
  then show ?thesis
    by (elim disjE conjE) simp_all
qed

theorem C7_witness:
  "Signal \<notin> set [Sensor ''40000\<newline>'', Thread, Thread, Handler, Thread, Sensor ''41000\<newline>'']
   \<and> loop_pc (execute [Sensor ''40000\<newline>'', Thread, Thread, Handler, Thread, Sensor ''41000\<newline>'']
        (Entry, [], example_fan)) = Body
   \<and> calls (mode_file (fan_of
        (execute [Sensor ''40000\<newline>'', Thread, Thread, Handler, Thread, Sensor ''41000\<newline>'']
           (Entry, [], example_fan))))
       = [Seek 0, Readline, Seek 0, Write ''1'', Seek 0]"
proof -
  let ?es = "[Sensor ''40000\<newline>'', Thread, Thread, Handler, Thread, Sensor ''41000\<newline>'']"
  have h: "Signal \<notin> set ?es"
    by simp
  have pc: "loop_pc (execute ?es (Entry, [], example_fan)) = Body"
    by (simp add: example_fan_def)
  have c: "calls (mode_file example_fan) = [Seek 0, Readline, Seek 0]"
    by (simp add: example_fan_def)
  show ?thesis
    using C7_run_sets_manual_once [OF h, of example_fan] h
    by (simp only: pc c) simp
qed

subsection \<open>The loop after shutdown\<close>

lemma pwm_writes_write_pwm [simp]: "pwm_writes (write_pwm v fan) = Suc (pwm_writes fan)"
  by (simp add: pwm_writes_def)

lemma pwm_writes_unchanged [simp]:
  "pwm_writes (set_mode m fan) = pwm_writes fan" "pwm_writes (shutdown fan) = pwm_writes fan"
  by (simp_all add: pwm_writes_def)

lemma pwm_writes_cong: "pwm_file fan' = pwm_file fan \<Longrightarrow> pwm_writes fan' = pwm_writes fan"
  by (simp add: pwm_writes_def)

lemma exited_iff: "exited pc \<longleftrightarrow> steps_to_exit pc = 0"
  by (cases pc) (simp_all add: exited_def)

lemma steps_to_exit_le: "steps_to_exit pc \<le> 3"
  by (cases pc) simp_all

lemma pwm_writes_mode_file [simp]: "pwm_writes (fan\<lparr>mode_file := m\<rparr>) = pwm_writes fan"
  "pwm_writes (fan\<lparr>is_running := b\<rparr>) = pwm_writes fan"
  "pwm_writes (fan\<lparr>temperature := t\<rparr>) = pwm_writes fan"
  by (simp_all add: pwm_writes_def)

lemma run_step_stopped:
  assumes "\<not> is_running fan"
  shows "pwm_writes (snd (run_step (pc, fan))) \<le> pwm_writes fan + (if pc = Body then 1 else 0)"
    and "fst (run_step (pc, fan)) \<noteq> Body"
    and "steps_to_exit (fst (run_step (pc, fan))) \<le> steps_to_exit pc - 1"
proof -
  obtain r fan' where g: "get_current_pwm fan = (r, fan')" by (cases "get_current_pwm fan")
  then have "pwm_file fan' = pwm_file fan"
    using get_current_pwm_fields(1) [of fan] by simp
  then have w: "pwm_writes fan' = pwm_writes fan" by (rule pwm_writes_cong)
  show "pwm_writes (snd (run_step (pc, fan))) \<le> pwm_writes fan + (if pc = Body then 1 else 0)"
    using g w by (cases pc; cases r) simp_all
  show "fst (run_step (pc, fan)) \<noteq> Body"
    using g assms by (cases pc; cases r) simp_all
  show "steps_to_exit (fst (run_step (pc, fan))) \<le> steps_to_exit pc - 1"
    using g assms by (cases pc; cases r) simp_all
qed

lemma shutdown_step_pwm_writes: "pwm_writes (snd (shutdown_step (hs, fan))) = pwm_writes fan"
  by (cases "(hs, fan)" rule: shutdown_step.cases) simp_all

lemma occur_stopped:
  assumes "\<not> is_running (fan_of s)"
  shows "\<not> is_running (fan_of (occur e s))"
    and "pwm_writes (fan_of (occur e s)) + (if loop_pc (occur e s) = Body then 1 else 0)
           \<le> pwm_writes (fan_of s) + (if loop_pc s = Body then 1 else 0)"
    and "steps_to_exit (loop_pc (occur e s))
           \<le> steps_to_exit (loop_pc s) - (if e = Thread then 1 else 0)"
proof -
  obtain pc hs fan where s: "s = (pc, hs, fan)" by (cases s)
  have stopped: "\<not> is_running fan" using assms by (simp add: s)
  obtain pc' fan' where r: "run_step (pc, fan) = (pc', fan')" by (cases "run_step (pc, fan)")
  obtain hs' fan'' where h: "shutdown_step (hs, fan) = (hs', fan'')"
    by (cases "shutdown_step (hs, fan)")
  have t: "\<not> is_running fan'" "pc' \<noteq> Body"
    "pwm_writes fan' \<le> pwm_writes fan + (if pc = Body then 1 else 0)"
    "steps_to_exit pc' \<le> steps_to_exit pc - 1"
    using run_step_stopped [OF stopped, of pc] run_step_flag [of pc fan] stopped r by simp_all
  have g: "\<not> is_running fan''" "pwm_writes fan'' = pwm_writes fan"
    using shutdown_step_flag [OF stopped, of hs] shutdown_step_pwm_writes [of hs fan] h
    by simp_all
  show "\<not> is_running (fan_of (occur e s))"
    using stopped t(1) g(1) r h by (cases e) (simp_all add: s)
  show "pwm_writes (fan_of (occur e s)) + (if loop_pc (occur e s) = Body then 1 else 0)
           \<le> pwm_writes (fan_of s) + (if loop_pc s = Body then 1 else 0)"
    using t(2,3) g(2) r h by (cases e) (simp_all add: s)
  show "steps_to_exit (loop_pc (occur e s))
           \<le> steps_to_exit (loop_pc s) - (if e = Thread then 1 else 0)"
    using t(4) r h by (cases e) (simp_all add: s)
qed

lemma execute_stopped:
  assumes "\<not> is_running (fan_of s)"
  shows "\<not> is_running (fan_of (execute es s))
       \<and> pwm_writes (fan_of (execute es s))
           \<le> pwm_writes (fan_of s) + (if loop_pc s = Body then 1 else 0)
       \<and> steps_to_exit (loop_pc (execute es s))
           \<le> steps_to_exit (loop_pc s) - count_list es Thread"
  using assms
proof (induction es arbitrary: s)
  case Nil
  then show ?case by simp
next
  case (Cons e es)
  note step = occur_stopped [OF Cons.prems, of e]
  note IH = Cons.IH [OF step(1)]
  have c: "count_list (e # es) Thread = (if e = Thread then 1 else 0) + count_list es Thread"
    by simp
  have "pwm_writes (fan_of (execute es (occur e s)))
      \<le> pwm_writes (fan_of s) + (if loop_pc s = Body then 1 else 0)"
    using IH step(2) by (blast intro: le_trans)
  moreover have "steps_to_exit (loop_pc (execute es (occur e s)))
      \<le> steps_to_exit (loop_pc s) - count_list (e # es) Thread"
  proof -
    have "steps_to_exit (loop_pc (execute es (occur e s)))
        \<le> steps_to_exit (loop_pc (occur e s)) - count_list es Thread"
      using IH by simp
    also have "\<dots> \<le> (steps_to_exit (loop_pc s) - (if e = Thread then 1 else 0))
        - count_list es Thread"
      using step(3) by (intro diff_le_mono) simp
    also have "\<dots> = steps_to_exit (loop_pc s) - count_list (e # es) Thread"
      unfolding c by simp
    finally show ?thesis .
  qed
  ultimately show ?case using IH by simp
qed

text \<open>
  C5, as the code has it. Once \<open>shutdown\<close> has completed, so that the running flag is
  \<open>False\<close>, whatever happens next the loop writes the PWM file at most once more, and only
  when the flag had been tested, and found set, before \<open>shutdown\<close> completed (the thread
  stands between the test and the write); from the sleep or from the test it writes no more.
  The loop ends at its next test of the flag, after at most three steps of its thread:
  the write under way, the sleep, the test.
\<close>

theorem C5_after_shutdown_at_most_one_write:
  assumes "\<not> is_running fan"
  shows "pwm_writes (fan_of (execute es (pc, hs, fan)))
           \<le> pwm_writes fan + (if pc = Body then 1 else 0)
       \<and> (steps_to_exit pc \<le> count_list es Thread \<longrightarrow>
            exited (loop_pc (execute es (pc, hs, fan))))
       \<and> steps_to_exit pc \<le> 3
       \<and> \<not> is_running (fan_of (execute es (pc, hs, fan)))"
proof -
  have "\<not> is_running (fan_of (pc, hs, fan))" using assms by simp
  note e = execute_stopped [OF this, of es]
  have "exited (loop_pc (execute es (pc, hs, fan)))" if "steps_to_exit pc \<le> count_list es Thread"
  proof -
    have "steps_to_exit (loop_pc (execute es (pc, hs, fan))) \<le> steps_to_exit pc - count_list es Thread"
      using e by simp
    also have "\<dots> = 0" using that by simp
    finally show ?thesis by (simp add: exited_iff)
  qed
  then show ?thesis
    using e steps_to_exit_le [of pc] by simp
qed

lemma example_get_temperature:
  "fst (get_temperature example_temperature) = Inr 50"
  by (simp add: get_temperature_def read_temperature_def example_temperature_def readline_def
      seek_def Let_def py_int_50000 int_truediv_def deque_append_def mean_def py_round_def)

lemma example_get_current_pwm:
  assumes "temperature fan = example_temperature" and "pwm fan = example_pwm"
  shows "fst (get_current_pwm fan) = Inr 152"
proof -
  obtain t' where t: "get_temperature example_temperature = (Inr 50, t')"
    using example_get_temperature by (cases "get_temperature example_temperature") simp
  have m: "minimum t' = 20" "maximum t' = 80"
    using t by (auto simp add: get_temperature_def read_temperature_def example_temperature_def
        Let_def split: prod.splits sum.splits)
  have "clamped_linear_interpolation 50 255 (1 / 2) = 152"
    by (simp add: clamped_linear_interpolation_def clamp_def py_round_def lerp_def Let_def)
  then show ?thesis
    using assms t m
    by (simp add: get_current_pwm_def get_temperature_percentage_def delta_def example_pwm_def)
qed

lemma execute_append: "execute (es @ es') s = execute es' (execute es s)"
  by (induction es arbitrary: s) simp_all

text \<open>
  What C5 states, no PWM write once \<open>shutdown\<close> has completed, fails when \<open>shutdown\<close> runs
  between the loop's test of the flag and its write: on the concrete fan the loop passes the
  test, the handler runs \<open>shutdown\<close> to its end, and the next step of the loop writes 152 to
  the PWM file.
\<close>

theorem C5_write_after_shutdown_counterexample:
  "\<not> is_running (fan_of (execute [Thread, Thread, Thread, Signal, Handler, Handler, Handler]
         (Entry, [], example_fan)))
   \<and> handlers (execute [Thread, Thread, Thread, Signal, Handler, Handler, Handler]
         (Entry, [], example_fan)) = []
   \<and> loop_pc (execute [Thread, Thread, Thread, Signal, Handler, Handler, Handler]
         (Entry, [], example_fan)) = Body
   \<and> pwm_writes (fan_of (execute [Thread, Thread, Thread, Signal, Handler, Handler, Handler]
         (Entry, [], example_fan))) = 0
   \<and> pwm_writes (fan_of (execute [Thread, Thread, Thread, Signal, Handler, Handler, Handler, Thread]
         (Entry, [], example_fan))) = 1
   \<and> loop_pc (execute [Thread, Thread, Thread, Signal, Handler, Handler, Handler, Thread]
         (Entry, [], example_fan)) = Sleeping"
proof -
  let ?fan = "shutdown (set_mode MANUAL example_fan)"
  have r: "is_running example_fan" by (simp add: example_fan_def)
  have s: "execute [Thread, Thread, Thread, Signal, Handler, Handler, Handler] (Entry, [], example_fan)
      = (Body, [], ?fan)"
    using r by (simp add: set_mode_def shutdown_def)
  have w: "pwm_writes ?fan = 0"
    by (simp add: pwm_writes_def example_fan_def example_pwm_file_def)
  obtain fan' where g: "get_current_pwm ?fan = (Inr 152, fan')"
    using example_get_current_pwm [of ?fan]
    by (cases "get_current_pwm ?fan") (simp add: example_fan_def)
  then have "pwm_file fan' = pwm_file ?fan"
    using get_current_pwm_fields(1) [of ?fan] by simp
  then have w': "pwm_writes fan' = 0"
    using w by (simp add: pwm_writes_def)
  have "execute ([Thread, Thread, Thread, Signal, Handler, Handler, Handler] @ [Thread])
      (Entry, [], example_fan) = execute [Thread] (Body, [], ?fan)"
    unfolding execute_append s ..
  then have "execute [Thread, Thread, Thread, Signal, Handler, Handler, Handler, Thread]
      (Entry, [], example_fan) = execute [Thread] (Body, [], ?fan)"
    by (simp only: append.simps)
  also have "\<dots> = (Sleeping, [], write_pwm 152 fan')"
    using g by simp
  finally show ?thesis
    using s w w' by simp
qed

theorem C5_witness:
  "\<not> is_running (shutdown (set_mode MANUAL example_fan))
   \<and> steps_to_exit Body \<le> count_list [Thread, Sensor ''90000\<newline>'', Thread, Signal, Thread] Thread
   \<and> pwm_writes (fan_of (execute [Thread, Sensor ''90000\<newline>'', Thread, Signal, Thread]
         (Body, [], shutdown (set_mode MANUAL example_fan)))) \<le> 1
   \<and> exited (loop_pc (execute [Thread, Sensor ''90000\<newline>'', Thread, Signal, Thread]
         (Body, [], shutdown (set_mode MANUAL example_fan))))"
proof -
  have h: "\<not> is_running (shutdown (set_mode MANUAL example_fan))" by simp
  have w: "pwm_writes (shutdown (set_mode MANUAL example_fan)) = 0"
    by (simp add: pwm_writes_def example_fan_def example_pwm_file_def)
  have c: "steps_to_exit Body
      \<le> count_list [Thread, Sensor ''90000\<newline>'', Thread, Signal, Thread] Thread"
    by simp
  show ?thesis
    using C5_after_shutdown_at_most_one_write
      [OF h, of "[Thread, Sensor ''90000\<newline>'', Thread, Signal, Thread]" Body "[]"] h c
    unfolding w by (simp del: execute.simps)
qed

subsection \<open>The target PWM\<close>

lemma pwm_clamp_range: "0 \<le> pwm_clamp x \<and> pwm_clamp x \<le> 255"
  by (simp add: pwm_clamp_def clamp_def)

lemma pwm_clamp_of_clamp:
  assumes "0 \<le> lo" "lo \<le> 255" "0 \<le> hi" "hi \<le> 255"
  shows "pwm_clamp (clamp x lo hi) = clamp x lo hi"
  using assms by (simp add: pwm_clamp_def clamp_def)

lemma PWMConfiguration_from_json_range:
  assumes "PWMConfiguration_from_json data = Inr p"
  shows "0 \<le> PWMConfiguration.minimum p" "PWMConfiguration.minimum p \<le> 255"
    "0 \<le> PWMConfiguration.maximum p" "PWMConfiguration.maximum p \<le> 255"
  using assms pwm_clamp_range
  by (auto simp add: PWMConfiguration_from_json_def split: sum.splits)

lemma get_temperature_percentage_pwm:
  "pwm (snd (get_temperature_percentage fan)) = pwm fan"
  by (simp add: get_temperature_percentage_state)

text \<open>
  C1. For a fan whose PWM range was built by \<open>PWMConfiguration.from_json\<close>, \<open>get_current_pwm\<close>
  returns exactly \<open>pwm_clamp\<close> of the clamped linear interpolation between the range's
  minimum and maximum by the temperature fraction, and raises exactly when
  \<open>get_temperature_percentage\<close> raises; the sampler is advanced in both cases.
\<close>

theorem C1_get_current_pwm_is_clamped:
  assumes "PWMConfiguration_from_json data = Inr (pwm fan)"
  shows "get_current_pwm fan =
           (case get_temperature_percentage fan of
              (Inl e, fan') \<Rightarrow> (Inl e, fan')
            | (Inr fraction, fan') \<Rightarrow>
                (Inr (pwm_clamp (clamped_linear_interpolation (PWMConfiguration.minimum (pwm fan))
                        (PWMConfiguration.maximum (pwm fan)) fraction)), fan'))"
proof -
  obtain r fan' where g: "get_temperature_percentage fan = (r, fan')"
    by (cases "get_temperature_percentage fan")
  then have p: "pwm fan' = pwm fan"
    using get_temperature_percentage_pwm [of fan] by simp
  note range = PWMConfiguration_from_json_range [OF assms]
  show ?thesis
    using g p by (cases r)
      (simp_all add: get_current_pwm_def clamped_linear_interpolation_def
        pwm_clamp_of_clamp [OF range])
qed

lemma example_fraction: "fst (get_temperature_percentage example_fan) = Inr (1 / 2)"
proof -
  obtain t' where t: "get_temperature example_temperature = (Inr 50, t')"
    using example_get_temperature by (cases "get_temperature example_temperature") simp
  have m: "minimum t' = 20" "maximum t' = 80"
    using t by (auto simp add: get_temperature_def read_temperature_def example_temperature_def
        Let_def split: prod.splits sum.splits)
  show ?thesis
    using t m by (simp add: get_temperature_percentage_def delta_def example_fan_def)
qed

theorem C1_witness:
  "PWMConfiguration_from_json example_data = Inr (pwm example_fan)
   \<and> fst (get_temperature_percentage example_fan) = Inr (1 / 2)
   \<and> fst (get_current_pwm example_fan) = Inr (pwm_clamp (clamped_linear_interpolation 50 255 (1 / 2)))
   \<and> pwm_clamp (clamped_linear_interpolation 50 255 (1 / 2)) = 152"
proof -
  have h: "PWMConfiguration_from_json example_data = Inr (pwm example_fan)"
    by (simp add: example_pwm_from_json example_fan_def)
  obtain fan' where f: "get_temperature_percentage example_fan = (Inr (1 / 2), fan')"
    using example_fraction by (cases "get_temperature_percentage example_fan") simp
  have p: "PWMConfiguration.minimum (pwm example_fan) = 50"
    "PWMConfiguration.maximum (pwm example_fan) = 255"
    by (simp_all add: example_fan_def example_pwm_def)
  have v: "pwm_clamp (clamped_linear_interpolation 50 255 (1 / 2)) = 152"
    by (simp add: pwm_clamp_def clamped_linear_interpolation_def clamp_def py_round_def lerp_def
        Let_def)
  show ?thesis
    using C1_get_current_pwm_is_clamped [OF h] h
    by (simp add: f p v)
qed

subsection \<open>The sampler\<close>

lemma read_temperature_fields [simp]:
  "minimum (snd (read_temperature tc)) = minimum tc"
  "maximum (snd (read_temperature tc)) = maximum tc"
  "previous_temperatures (snd (read_temperature tc)) = previous_temperatures tc"
  by (simp_all add: read_temperature_def Let_def split: prod.splits sum.splits)

lemma get_temperature_fields [simp]:
  "minimum (snd (get_temperature tc)) = minimum tc"
  "maximum (snd (get_temperature tc)) = maximum tc"
  "maxlen (previous_temperatures (snd (get_temperature tc))) = maxlen (previous_temperatures tc)"
proof -
  obtain r tc' where g: "read_temperature tc = (r, tc')" by (cases "read_temperature tc")
  then have "minimum tc' = minimum tc" "maximum tc' = maximum tc"
    "previous_temperatures tc' = previous_temperatures tc"
    using read_temperature_fields [of tc] by simp_all
  then show "minimum (snd (get_temperature tc)) = minimum tc"
    "maximum (snd (get_temperature tc)) = maximum tc"
    "maxlen (previous_temperatures (snd (get_temperature tc))) = maxlen (previous_temperatures tc)"
    using g by (cases r; simp add: get_temperature_def Let_def deque_append_def split: sum.splits)+
qed

lemma mean_replicate:
  assumes "0 < k"
  shows "mean (replicate k t) = Inr (real_of_int t)"
proof -
  have "sum_list (replicate k t) = int k * t" by (induction k) (simp_all add: algebra_simps)
  then show ?thesis using assms by (simp add: mean_def)
qed

lemma deque_append_replicate:
  assumes "items d = replicate k t" and "1 \<le> maxlen d"
  shows "\<exists>k'. 0 < k' \<and> items (deque_append d t) = replicate k' t"
proof (cases "maxlen d < Suc k")
  case True
  then have "0 < k" using assms(2) by simp
  moreover have "items (deque_append d t) = replicate k t"
    using True assms(1) by (simp add: deque_append_def Let_def replicate_append_same)
  ultimately show ?thesis by blast
next
  case False
  then have "items (deque_append d t) = replicate (Suc k) t"
    using assms(1) by (simp add: deque_append_def Let_def replicate_append_same)
  then show ?thesis by blast
qed

lemma get_temperature_sustained:
  assumes "fst (read_temperature tc) = Inr t"
    and "items (previous_temperatures tc) = replicate k t"
    and "1 \<le> maxlen (previous_temperatures tc)"
  shows "fst (get_temperature tc) = Inr t"
proof -
  obtain tc' where r: "read_temperature tc = (Inr t, tc')"
    using assms(1) by (cases "read_temperature tc") simp
  then have p: "previous_temperatures tc' = previous_temperatures tc"
    using read_temperature_fields(3) [of tc] by simp
  obtain k' where k': "0 < k'" "items (deque_append (previous_temperatures tc) t) = replicate k' t"
    using deque_append_replicate [OF assms(2,3)] by blast
  show ?thesis
    using r p k' by (simp add: get_temperature_def mean_replicate py_round_of_int)
qed

lemma py_int_20000: "py_int ''20000\<newline>'' = Inr 20000"
  by (simp add: py_int_def strip_def is_space_def parse_unsigned_def digit_val_def)

lemma py_int_80000: "py_int ''80000\<newline>'' = Inr 80000"
  by (simp add: py_int_def strip_def is_space_def parse_unsigned_def digit_val_def)

lemma py_str_thousands:
  "py_str 20000 = ''20000''" "py_str 50000 = ''50000''" "py_str 80000 = ''80000''"
  by (simp_all add: py_str_def dec_nat.simps digit_char_def)

lemma read_temperature_line:
  "fst (read_temperature tc) =
     (case py_int (fst (readline (seek 0 (input tc)))) of
        Inl e \<Rightarrow> Inl e
      | Inr n \<Rightarrow> Inr (int_truediv n 1000))"
  by (simp add: read_temperature_def Let_def split: prod.splits sum.splits)

lemma get_current_pwm_value:
  assumes "fst (get_temperature (temperature fan)) = Inr v"
    and "delta (temperature fan) \<noteq> 0"
  shows "fst (get_current_pwm fan) =
           Inr (clamped_linear_interpolation (PWMConfiguration.minimum (pwm fan))
                  (PWMConfiguration.maximum (pwm fan))
                  (real_of_int (v - minimum (temperature fan)) / real_of_int (delta (temperature fan))))"
proof -
  obtain tc' where g: "get_temperature (temperature fan) = (Inr v, tc')"
    using assms(1) by (cases "get_temperature (temperature fan)") simp
  then have "minimum tc' = minimum (temperature fan)" "maximum tc' = maximum (temperature fan)"
    using get_temperature_fields(1,2) [of "temperature fan"] by simp_all
  then have "delta tc' = delta (temperature fan)" "minimum tc' = minimum (temperature fan)"
    by (simp_all add: delta_def)
  then show ?thesis
    using g assms(2) by (simp add: get_current_pwm_def get_temperature_percentage_def)
qed

text \<open>
  C8. A fan with temperature range 20 to 80 and PWM range 50 to 255, whose history holds one
  sustained reading \<open>t\<close> and whose sensor shows \<open>t\<close> degrees (in millidegrees, on one line):
  at 20 degrees the target PWM is 50, at 80 degrees it is 255, and at 50 degrees it is 152,
  the tie 152.5 going to the even neighbour as Python's \<open>round\<close> does.
\<close>

theorem C8_sustained_readings:
  assumes "minimum (temperature fan) = 20" and "maximum (temperature fan) = 80"
    and "PWMConfiguration.minimum (pwm fan) = 50" and "PWMConfiguration.maximum (pwm fan) = 255"
    and "1 \<le> maxlen (previous_temperatures (temperature fan))"
    and "items (previous_temperatures (temperature fan)) = replicate k t"
    and "content (input (temperature fan)) = py_str (t * 1000) @ ''\<newline>''"
  shows "(t = 20 \<longrightarrow> fst (get_current_pwm fan) = Inr 50)
       \<and> (t = 50 \<longrightarrow> fst (get_current_pwm fan) = Inr 152)
       \<and> (t = 80 \<longrightarrow> fst (get_current_pwm fan) = Inr 255)"
proof -
  have d: "delta (temperature fan) \<noteq> 0"
    using assms(1,2) by (simp add: delta_def)
  have read: "fst (read_temperature (temperature fan)) = Inr t"
    if "t = 20 \<or> t = 50 \<or> t = 80"
    using that assms(7)
    by (auto simp add: read_temperature_line readline_def Let_def py_str_thousands
        py_int_20000 py_int_50000 py_int_80000 int_truediv_def)
  have pwm: "fst (get_current_pwm fan) =
      Inr (clamped_linear_interpolation 50 255 (real_of_int (t - 20) / 60))"
    if "t = 20 \<or> t = 50 \<or> t = 80"
    using get_current_pwm_value [OF get_temperature_sustained [OF read [OF that] assms(6,5)] d]
    by (simp add: assms(1-4) delta_def)
  have "clamped_linear_interpolation 50 255 0 = 50"
    "clamped_linear_interpolation 50 255 (1 / 2) = 152"
    "clamped_linear_interpolation 50 255 1 = 255"
    by (simp_all add: clamped_linear_interpolation_def clamp_def py_round_def lerp_def Let_def)
  then show ?thesis
    using pwm by auto
qed

theorem C8_witness:
  "minimum (temperature (example_fan\<lparr>temperature := example_temperature
       \<lparr>previous_temperatures := \<lparr>maxlen = 3, items = [50, 50, 50]\<rparr>\<rparr>\<rparr>)) = 20
   \<and> items (previous_temperatures (temperature (example_fan\<lparr>temperature := example_temperature
       \<lparr>previous_temperatures := \<lparr>maxlen = 3, items = [50, 50, 50]\<rparr>\<rparr>\<rparr>))) = replicate 3 50
   \<and> content (input (temperature (example_fan\<lparr>temperature := example_temperature
       \<lparr>previous_temperatures := \<lparr>maxlen = 3, items = [50, 50, 50]\<rparr>\<rparr>\<rparr>)))
       = py_str (50 * 1000) @ ''\<newline>''
   \<and> fst (get_current_pwm (example_fan\<lparr>temperature := example_temperature
       \<lparr>previous_temperatures := \<lparr>maxlen = 3, items = [50, 50, 50]\<rparr>\<rparr>\<rparr>)) = Inr 152"
proof -
  let ?fan = "example_fan\<lparr>temperature := example_temperature
       \<lparr>previous_temperatures := \<lparr>maxlen = 3, items = [50, 50, 50]\<rparr>\<rparr>\<rparr>"
  have h: "minimum (temperature ?fan) = 20" "maximum (temperature ?fan) = 80"
    "PWMConfiguration.minimum (pwm ?fan) = 50"
    "PWMConfiguration.maximum (pwm ?fan) = 255"
    "1 \<le> maxlen (previous_temperatures (temperature ?fan))"
    "items (previous_temperatures (temperature ?fan)) = replicate 3 50"
    "content (input (temperature ?fan)) = py_str (50 * 1000) @ ''\<newline>''"
    by (simp_all add: example_fan_def example_temperature_def example_pwm_def py_str_thousands
        numeral_3_eq_3)
  show ?thesis
    using C8_sustained_readings [OF h] h(1,6,7) by simp
qed

subsection \<open>The moving average\<close>

lemma read_temperature_sensor:
  "fst (read_temperature (sensor_shows raw tc)) = fst (read_temperature (sensor_shows raw tc0))"
  by (simp add: read_temperature_line sensor_shows_def readline_def seek_def Let_def
      case_prod_beta)

lemma sensor_shows_fields [simp]:
  "previous_temperatures (sensor_shows raw tc) = previous_temperatures tc"
  "minimum (sensor_shows raw tc) = minimum tc" "maximum (sensor_shows raw tc) = maximum tc"
  by (simp_all add: sensor_shows_def)

lemma last_readings_length: "length (last_readings n rs) = min n (length rs)"
  by (simp add: last_readings_def)

lemma last_readings_nonempty: "0 < n \<Longrightarrow> rs \<noteq> [] \<Longrightarrow> last_readings n rs \<noteq> []"
proof -
  assume "0 < n" and "rs \<noteq> []"
  then have "length rs - n < length rs" by (cases rs) simp_all
  then show ?thesis by (simp add: last_readings_def)
qed

lemma last_readings_append:
  "last_readings n (last_readings n xs @ ys) = last_readings n (xs @ ys)"
proof (cases "length xs \<le> n")
  case True
  then show ?thesis by (simp add: last_readings_def)
next
  case False
  then have "length (drop (length xs - n) xs) = n" by simp
  then show ?thesis using False by (simp add: last_readings_def add.commute)
qed

lemma deque_append_items:
  assumes "length (items d) \<le> maxlen d"
  shows "items (deque_append d r) = last_readings (maxlen d) (items d @ [r])"
proof (cases "maxlen d < Suc (length (items d))")
  case True
  with assms have "length (items d) = maxlen d" by simp
  then show ?thesis
    using True by (cases "items d") (auto simp add: deque_append_def Let_def last_readings_def)
next
  case False
  then show ?thesis by (simp add: deque_append_def Let_def last_readings_def)
qed

lemma get_temperature_step:
  assumes "fst (read_temperature tc) = Inr r"
    and "1 \<le> maxlen (previous_temperatures tc)"
    and "length (items (previous_temperatures tc)) \<le> maxlen (previous_temperatures tc)"
  shows "fst (get_temperature tc) =
           Inr (rounded_mean (last_readings (maxlen (previous_temperatures tc))
                  (items (previous_temperatures tc) @ [r])))"
    and "items (previous_temperatures (snd (get_temperature tc))) =
           last_readings (maxlen (previous_temperatures tc)) (items (previous_temperatures tc) @ [r])"
proof -
  let ?d = "previous_temperatures tc"
  obtain tc' where rd: "read_temperature tc = (Inr r, tc')"
    using assms(1) by (cases "read_temperature tc") simp
  then have p: "previous_temperatures tc' = ?d"
    using read_temperature_fields(3) [of tc] by simp
  have i: "items (deque_append ?d r) = last_readings (maxlen ?d) (items ?d @ [r])"
    using assms(3) by (rule deque_append_items)
  have ne: "last_readings (maxlen ?d) (items ?d @ [r]) \<noteq> []"
    using assms(2) by (intro last_readings_nonempty) simp_all
  show "fst (get_temperature tc) = Inr (rounded_mean (last_readings (maxlen ?d) (items ?d @ [r])))"
    using rd p i ne by (simp add: get_temperature_def mean_def rounded_mean_def)
  show "items (previous_temperatures (snd (get_temperature tc))) =
           last_readings (maxlen ?d) (items ?d @ [r])"
    using rd p i ne by (simp add: get_temperature_def mean_def)
qed

lemma get_temperatures_window:
  assumes "list_all2 (\<lambda>raw r. fst (read_temperature (sensor_shows raw tc0)) = Inr r) raws rs"
    and "1 \<le> maxlen (previous_temperatures tc)"
    and "length (items (previous_temperatures tc)) \<le> maxlen (previous_temperatures tc)"
  shows "\<exists>outs tc'. get_temperatures raws tc = (Inr outs, tc')
       \<and> length outs = length raws
       \<and> (\<forall>i < length raws. outs ! i =
             rounded_mean (last_readings (maxlen (previous_temperatures tc))
               (items (previous_temperatures tc) @ take (Suc i) rs)))
       \<and> items (previous_temperatures tc') =
           last_readings (maxlen (previous_temperatures tc)) (items (previous_temperatures tc) @ rs)
       \<and> maxlen (previous_temperatures tc') = maxlen (previous_temperatures tc)"
  using assms
proof (induction raws rs arbitrary: tc rule: list_all2_induct)
  case Nil
  then show ?case by (simp add: last_readings_def)
next
  case (Cons raw raws r rs)
  let ?n = "maxlen (previous_temperatures tc)"
  let ?xs = "items (previous_temperatures tc)"
  let ?s = "sensor_shows raw tc"
  have rd: "fst (read_temperature ?s) = Inr r"
    using Cons.hyps(1) read_temperature_sensor [of raw tc tc0] by simp
  obtain v tc1 where g: "get_temperature ?s = (v, tc1)" by (cases "get_temperature ?s")
  have v: "v = Inr (rounded_mean (last_readings ?n (?xs @ [r])))"
    using get_temperature_step(1) [OF rd] Cons.prems g by simp
  have i1: "items (previous_temperatures tc1) = last_readings ?n (?xs @ [r])"
    using get_temperature_step(2) [OF rd] Cons.prems g by simp
  have m1: "maxlen (previous_temperatures tc1) = ?n"
    using get_temperature_fields(3) [of ?s] g by simp
  have l1: "length (items (previous_temperatures tc1)) \<le> maxlen (previous_temperatures tc1)"
    by (simp add: i1 m1 last_readings_length)
  have n1: "1 \<le> maxlen (previous_temperatures tc1)"
    using Cons.prems(1) by (simp add: m1)
  obtain outs tc' where rest: "get_temperatures raws tc1 = (Inr outs, tc')"
    "length outs = length raws"
    "\<forall>i < length raws. outs ! i =
        rounded_mean (last_readings ?n (last_readings ?n (?xs @ [r]) @ take (Suc i) rs))"
    "items (previous_temperatures tc') = last_readings ?n (last_readings ?n (?xs @ [r]) @ rs)"
    "maxlen (previous_temperatures tc') = ?n"
    using Cons.IH [OF n1 l1] unfolding i1 m1 by blast
  have run: "get_temperatures (raw # raws) tc
      = (Inr (rounded_mean (last_readings ?n (?xs @ [r])) # outs), tc')"
    using g v rest(1) by simp
  have each: "(rounded_mean (last_readings ?n (?xs @ [r])) # outs) ! i =
      rounded_mean (last_readings ?n (?xs @ take (Suc i) (r # rs)))"
    if "i < length (raw # raws)" for i
  proof (cases i)
    case 0
    then show ?thesis by simp
  next
    case (Suc j)
    with that have "j < length raws" by simp
    with rest(3) have "outs ! j =
        rounded_mean (last_readings ?n (last_readings ?n (?xs @ [r]) @ take (Suc j) rs))"
      by blast
    then show ?thesis
      using Suc by (simp add: last_readings_append)
  qed
  have "items (previous_temperatures tc') = last_readings ?n (?xs @ r # rs)"
    using rest(4) by (simp add: last_readings_append)
  with run rest(2,5) each show ?case by simp
qed


text \<open>
  C4. A sampler constructed with window \<open>average \<ge> 1\<close>, polled once for each raw text the
  sensor shows (each of them readable): every call returns, and returns the arithmetic mean,
  rounded to the nearest integer, of the last \<open>average\<close> readings up to and including the
  current one (of all readings so far while there are fewer): it is Python's \<open>round\<close> of that
  mean and at most one half away from it. Afterwards the buffer holds exactly the last
  \<open>average\<close> readings, oldest first, and never more than \<open>average\<close>.
\<close>

theorem C4_moving_average_window:
  assumes "TemperatureConfiguration_init inp lo hi average = Inr tc"
    and "1 \<le> average"
    and "list_all2 (\<lambda>raw r. fst (read_temperature (sensor_shows raw tc)) = Inr r) raws rs"
  shows "\<exists>outs tc'. get_temperatures raws tc = (Inr outs, tc')
       \<and> length outs = length raws
       \<and> (\<forall>i < length raws.
             outs ! i = rounded_mean (last_readings (nat average) (take (Suc i) rs))
             \<and> \<bar>real_of_int (outs ! i)
                  - real_of_int (sum_list (last_readings (nat average) (take (Suc i) rs)))
                    / real (length (last_readings (nat average) (take (Suc i) rs)))\<bar> \<le> 1 / 2
             \<and> length (last_readings (nat average) (take (Suc i) rs)) = min (nat average) (Suc i))
       \<and> items (previous_temperatures tc') = last_readings (nat average) rs
       \<and> length (items (previous_temperatures tc')) \<le> nat average"
proof -
  have d: "previous_temperatures tc = \<lparr>maxlen = nat average, items = []\<rparr>"
    using assms(1,2)
    by (auto simp add: TemperatureConfiguration_init_def deque_init_def split: if_splits)
  have n: "1 \<le> maxlen (previous_temperatures tc)"
    using assms(2) by (simp add: d)
  have l: "length (items (previous_temperatures tc)) \<le> maxlen (previous_temperatures tc)"
    by (simp add: d)
  have len: "length rs = length raws"
    using assms(3) by (simp add: list_all2_lengthD)
  obtain outs tc' where r: "get_temperatures raws tc = (Inr outs, tc')"
    "length outs = length raws"
    "\<forall>i < length raws. outs ! i = rounded_mean (last_readings (nat average) (take (Suc i) rs))"
    "items (previous_temperatures tc') = last_readings (nat average) rs"
    using get_temperatures_window [OF assms(3) n l] unfolding d by auto
  have near: "\<bar>real_of_int (rounded_mean w) - real_of_int (sum_list w) / real (length w)\<bar> \<le> 1 / 2"
    for w
    using py_round_lower [of "real_of_int (sum_list w) / real (length w)"]
      py_round_upper [of "real_of_int (sum_list w) / real (length w)"]
    unfolding rounded_mean_def by linarith
  have each: "outs ! i = rounded_mean (last_readings (nat average) (take (Suc i) rs))
      \<and> \<bar>real_of_int (outs ! i)
           - real_of_int (sum_list (last_readings (nat average) (take (Suc i) rs)))
             / real (length (last_readings (nat average) (take (Suc i) rs)))\<bar> \<le> 1 / 2
      \<and> length (last_readings (nat average) (take (Suc i) rs)) = min (nat average) (Suc i)"
    if i: "i < length raws" for i
  proof (intro conjI)
    show o: "outs ! i = rounded_mean (last_readings (nat average) (take (Suc i) rs))"
      using r(3) i by blast
    show "\<bar>real_of_int (outs ! i)
           - real_of_int (sum_list (last_readings (nat average) (take (Suc i) rs)))
             / real (length (last_readings (nat average) (take (Suc i) rs)))\<bar> \<le> 1 / 2"
      unfolding o by (rule near)
    show "length (last_readings (nat average) (take (Suc i) rs)) = min (nat average) (Suc i)"
      using i len by (simp add: last_readings_length)
  qed
  have "length (items (previous_temperatures tc')) \<le> nat average"
    by (simp add: r(4) last_readings_length)
  with r(1,2,4) each show ?thesis
    by blast
qed

lemma py_int_40000: "py_int ''40000\<newline>'' = Inr 40000"
  by (simp add: py_int_def strip_def is_space_def parse_unsigned_def digit_val_def)

lemma py_int_61000: "py_int ''61000\<newline>'' = Inr 61000"
  by (simp add: py_int_def strip_def is_space_def parse_unsigned_def digit_val_def)

theorem C4_witness:
  "TemperatureConfiguration_init (input example_temperature) 20 80 2
     = Inr (example_temperature\<lparr>previous_temperatures := \<lparr>maxlen = 2, items = []\<rparr>\<rparr>)
   \<and> (1::int) \<le> 2
   \<and> list_all2 (\<lambda>raw r. fst (read_temperature (sensor_shows raw
         (example_temperature\<lparr>previous_temperatures := \<lparr>maxlen = 2, items = []\<rparr>\<rparr>))) = Inr r)
       [''40000\<newline>'', ''50000\<newline>'', ''61000\<newline>''] [40, 50, 61]
   \<and> fst (get_temperatures [''40000\<newline>'', ''50000\<newline>'', ''61000\<newline>'']
         (example_temperature\<lparr>previous_temperatures := \<lparr>maxlen = 2, items = []\<rparr>\<rparr>))
       = Inr [40, 45, 56]
   \<and> items (previous_temperatures (snd (get_temperatures
         [''40000\<newline>'', ''50000\<newline>'', ''61000\<newline>'']
         (example_temperature\<lparr>previous_temperatures := \<lparr>maxlen = 2, items = []\<rparr>\<rparr>))))
       = [50, 61]"
proof -
  let ?tc = "example_temperature\<lparr>previous_temperatures := \<lparr>maxlen = 2, items = []\<rparr>\<rparr>"
  let ?raws = "[''40000\<newline>'', ''50000\<newline>'', ''61000\<newline>'']"
  have h1: "TemperatureConfiguration_init (input example_temperature) 20 80 2 = Inr ?tc"
    by (simp add: TemperatureConfiguration_init_def deque_init_def example_temperature_def)
  have h2: "(1::int) \<le> 2" by simp
  have h3: "list_all2 (\<lambda>raw r. fst (read_temperature (sensor_shows raw ?tc)) = Inr r)
      ?raws [40, 50, 61]"
    by (simp add: read_temperature_line sensor_shows_def readline_def seek_def Let_def
        py_int_40000 py_int_50000 py_int_61000 int_truediv_def)
  obtain outs tc' where r: "get_temperatures ?raws ?tc = (Inr outs, tc')"
    "length outs = length ?raws"
    "\<forall>i < length ?raws. outs ! i = rounded_mean (last_readings (nat 2) (take (Suc i) [40, 50, 61]))"
    "items (previous_temperatures tc') = last_readings (nat 2) [40, 50, 61]"
    using C4_moving_average_window [OF h1 h2 h3] by blast
  from r(2) obtain a b c where o: "outs = [a, b, c]"
    by (cases outs; cases "tl outs"; cases "tl (tl outs)") auto
  have "outs ! 0 = 40" "outs ! 1 = 45" "outs ! 2 = 56"
    using r(3) by (simp_all add: rounded_mean_def last_readings_def py_round_def Let_def)
  then have "outs = [40, 45, 56]"
    by (simp add: o)
  moreover have "items (previous_temperatures tc') = [50, 61]"
    using r(4) by (simp add: last_readings_def)
  ultimately show ?thesis
    using h1 h2 h3 r(1) by simp
qed

end
